theory Spec2Isabelle
  imports Main "HOL-Library.Word" "HOL-Library.Signed_Division"
begin

section \<open>Types of the parser\<close>

text \<open>
  \<^verbatim>\<open>typedef long long ValueType;\<close> is a 64-bit two's complement integer. It is a
  \<open>64 word\<close>: \<open>+\<close>, \<open>-\<close> and \<open>*\<close> wrap around, \<open>sint\<close> reads the signed value.
  Signed overflow of \<open>+\<close>, \<open>-\<close> and \<open>*\<close> is undefined in C; the wrap-around is what the
  usual targets do. No input evaluated below overflows, and \<open>sint_power_in_range\<close> relates
  the power of \<open>ValueType\<close> to the power of the integers. The one overflow of a division is
  modelled apart (see \<open>divide_ValueType\<close>).
\<close>

type_synonym ValueType = "64 word"

datatype ParseErrorCode =
  ParseError_None | ParseError_Syntax | ParseError_Div0 | ParseError_NoClosingParenthesis

text \<open>
  \<^verbatim>\<open>struct ParseData\<close>. The C field \<open>currentPosition\<close> is a pointer into the
  NUL-terminated input; here it is the offset from the start of the input, and the
  input string itself is a separate (read-only) argument of every function.
\<close>

record ParseData =
  currentPosition :: nat
  errorCode :: ParseErrorCode

section \<open>Reading the input\<close>

text \<open>
  \<open>charAt str p\<close> is \<^verbatim>\<open>str[p]\<close>: the character at offset \<open>p\<close>, and the terminating
  NUL at the end of the string. No function of the parser moves the cursor past a NUL.
\<close>

definition charAt :: "string \<Rightarrow> nat \<Rightarrow> char" where
  "charAt str p = (if p < length str then str ! p else CHR 0x00)"

text \<open>
  \<^verbatim>\<open>isspace\<close> and \<^verbatim>\<open>isdigit\<close> of \<^verbatim>\<open><ctype.h>\<close>, in the "C" locale: space, tab,
  line feed, vertical tab, form feed and carriage return are white space, and no
  character above 127 is.
\<close>

definition isspace :: "char \<Rightarrow> bool" where
  "isspace c \<longleftrightarrow> c = CHR 0x20 \<or> c = CHR 0x09 \<or> c = CHR 0x0A \<or> c = CHR 0x0B
     \<or> c = CHR 0x0C \<or> c = CHR 0x0D"

definition isdigit :: "char \<Rightarrow> bool" where
  "isdigit c \<longleftrightarrow> 48 \<le> (of_char c :: nat) \<and> (of_char c :: nat) \<le> 57"

lemma isspace_charAt_less: "isspace (charAt str p) \<Longrightarrow> p < length str"
  by (auto simp: charAt_def isspace_def split: if_splits)

lemma isdigit_charAt_less: "isdigit (charAt str p) \<Longrightarrow> p < length str"
  by (auto simp: charAt_def isdigit_def split: if_splits)

text \<open>\<^verbatim>\<open>while(isspace(*str)) ++str; return str;\<close>\<close>

function skipWhitespace :: "string \<Rightarrow> nat \<Rightarrow> nat" where
  "skipWhitespace str p = (if isspace (charAt str p) then skipWhitespace str (Suc p) else p)"
  by pat_completeness auto
termination
  by (relation "measure (\<lambda>(str, p). length str - p)") (auto dest: isspace_charAt_less)

declare skipWhitespace.simps [simp del]

section \<open>The library function strtoll, base 10\<close>

text \<open>
  \<^verbatim>\<open>strtoll(nptr, &endPtr, 10)\<close> as ISO C describes it: white space is skipped, one
  optional sign is read, then the longest run of decimal digits. With no digit there is
  no conversion: the value is 0 and \<open>endPtr\<close> is \<open>nptr\<close>. A value out of the range of
  \<open>long long\<close> is replaced by \<open>LLONG_MIN\<close> or \<open>LLONG_MAX\<close>.
\<close>

function scanDigits :: "string \<Rightarrow> nat \<Rightarrow> int \<Rightarrow> int \<times> nat" where
  "scanDigits str p acc =
     (if isdigit (charAt str p)
      then scanDigits str (Suc p) (acc * 10 + (int (of_char (charAt str p)) - 48))
      else (acc, p))"
  by pat_completeness auto
termination
  by (relation "measure (\<lambda>(str, p, acc). length str - p)") (auto dest: isdigit_charAt_less)

declare scanDigits.simps [simp del]

definition LLONG_MAX :: int where
  "LLONG_MAX = 9223372036854775807"

definition LLONG_MIN :: int where
  "LLONG_MIN = - 9223372036854775808"

definition strtoll :: "string \<Rightarrow> nat \<Rightarrow> ValueType \<times> nat" where
  "strtoll str nptr =
     (let p = skipWhitespace str nptr;
          c = charAt str p;
          q = (if c = CHR ''+'' \<or> c = CHR ''-'' then Suc p else p);
          (acc, endPtr) = scanDigits str q 0;
          v = (if c = CHR ''-'' then - acc else acc)
      in if endPtr = q then (0, nptr)
         else (word_of_int (max LLONG_MIN (min LLONG_MAX v)), endPtr))"

section \<open>The precedence levels\<close>

text \<open>\<^verbatim>\<open>parseValue\<close>: the highest precedence level, an integer literal.\<close>

definition parseValue :: "string \<Rightarrow> ParseData \<Rightarrow> ValueType \<times> ParseData" where
  "parseValue str data =
     (let data1 = data\<lparr>currentPosition := skipWhitespace str (currentPosition data)\<rparr>;
          (result, endPtr) = strtoll str (currentPosition data1);
          data2 = (if endPtr = currentPosition data1
                   then data1\<lparr>errorCode := ParseError_Syntax\<rparr> else data1)
      in (result, data2\<lparr>currentPosition := endPtr\<rparr>))"

text \<open>
  The loop \<^verbatim>\<open>while(--result2) result *= factor;\<close> of \<open>parseExponent\<close>. The decrement
  wraps around like the machine's, so the function is total.
\<close>

lemma unat_pred_less: "(w :: ValueType) \<noteq> 0 \<Longrightarrow> unat (w - 1) < unat w"
  by (simp add: unat_minus_one unat_gt_0)

function parseExponent_while :: "ValueType \<Rightarrow> ValueType \<Rightarrow> ValueType \<Rightarrow> ValueType" where
  "parseExponent_while result factor result2 =
     (if result2 - 1 \<noteq> 0 then parseExponent_while (result * factor) factor (result2 - 1)
      else result)"
  by pat_completeness auto
termination
proof (relation "measure (\<lambda>(result, factor, result2). unat (result2 - 1))")
  show "wf (measure (\<lambda>(result, factor, result2). unat (result2 - 1)))" by simp
next
  fix result factor result2 :: ValueType
  assume "result2 - 1 \<noteq> 0"
  then have "unat (result2 - 1 - 1) < unat (result2 - 1)" by (rule unat_pred_less)
  then show "((result * factor, factor, result2 - 1), (result, factor, result2))
     \<in> measure (\<lambda>(result, factor, result2). unat (result2 - 1))" by simp
qed

declare parseExponent_while.simps [simp del]

text \<open>
  \<^verbatim>\<open>result /= result2\<close> on \<open>long long\<close>: the quotient truncated towards zero. It
  is \<open>None\<close> where C gives the division no result: for a divisor 0 (the code tests
  \<open>result2 == 0\<close> before it divides) and for \<open>LLONG_MIN / -1\<close>, whose quotient is not a
  \<open>long long\<close> (on the usual targets the program is stopped there by a hardware trap).
\<close>

definition divide_ValueType :: "ValueType \<Rightarrow> ValueType \<Rightarrow> ValueType option" where
  "divide_ValueType a b =
     (if b = 0 \<or> (sint a = LLONG_MIN \<and> sint b = - 1) then None
      else Some (word_of_int (sint a sdiv sint b)))"

text \<open>
  What a call of a parsing function can end with, apart from returning: the bound on the
  depth of calls (see below) is exhausted, or the division of \<open>parseMulDiv\<close> has no
  defined result.
\<close>

datatype fault = DepthExceeded | DivisionOverflow

text \<open>
  The mutually recursive parsing functions. The recursion of the C code is bounded only
  by the input, so every function takes a bound on the depth of calls (its first
  argument) and ends with \<open>Inl DepthExceeded\<close> when the bound is exhausted. A result
  \<open>Inr (v, data')\<close> is the value the C function returns and the \<open>ParseData\<close> it leaves
  behind. A division that overflows ends the whole run with \<open>Inl DivisionOverflow\<close>,
  whatever the bound. The two \<^verbatim>\<open>while(1)\<close> loops are the functions
  \<open>parseAddSubtract_loop\<close> and \<open>parseMulDiv_loop\<close>, whose argument \<open>result\<close> is the
  loop's accumulator.
\<close>

function (sequential) parseAddSubtract :: "nat \<Rightarrow> string \<Rightarrow> ParseData \<Rightarrow> fault + ValueType \<times> ParseData"
  and parseAddSubtract_loop ::
    "nat \<Rightarrow> string \<Rightarrow> ValueType \<Rightarrow> ParseData \<Rightarrow> fault + ValueType \<times> ParseData"
  and parseMulDiv :: "nat \<Rightarrow> string \<Rightarrow> ParseData \<Rightarrow> fault + ValueType \<times> ParseData"
  and parseMulDiv_loop ::
    "nat \<Rightarrow> string \<Rightarrow> ValueType \<Rightarrow> ParseData \<Rightarrow> fault + ValueType \<times> ParseData"
  and parseExponent :: "nat \<Rightarrow> string \<Rightarrow> ParseData \<Rightarrow> fault + ValueType \<times> ParseData"
  and parseUnaryMinus :: "nat \<Rightarrow> string \<Rightarrow> ParseData \<Rightarrow> fault + ValueType \<times> ParseData"
  and parseParentheses :: "nat \<Rightarrow> string \<Rightarrow> ParseData \<Rightarrow> fault + ValueType \<times> ParseData"
where
  "parseAddSubtract 0 str data = Inl DepthExceeded"
| "parseAddSubtract (Suc n) str data =
     (case parseMulDiv n str data of
        Inl e \<Rightarrow> Inl e
      | Inr (result, data1) \<Rightarrow>
          if errorCode data1 \<noteq> ParseError_None then Inr (result, data1)
          else parseAddSubtract_loop n str result data1)"
| "parseAddSubtract_loop 0 str result data = Inl DepthExceeded"
| "parseAddSubtract_loop (Suc n) str result data =
     (let data1 = data\<lparr>currentPosition := skipWhitespace str (currentPosition data)\<rparr>;
          c = charAt str (currentPosition data1)
      in if c \<noteq> CHR ''+'' \<and> c \<noteq> CHR ''-'' then Inr (result, data1)
         else
           (case parseMulDiv n str (data1\<lparr>currentPosition := Suc (currentPosition data1)\<rparr>) of
              Inl e \<Rightarrow> Inl e
            | Inr (result2, data2) \<Rightarrow>
                if errorCode data2 \<noteq> ParseError_None then Inr (result, data2)
                else if c = CHR ''+'' then parseAddSubtract_loop n str (result + result2) data2
                else parseAddSubtract_loop n str (result - result2) data2))"
| "parseMulDiv 0 str data = Inl DepthExceeded"
| "parseMulDiv (Suc n) str data =
     (case parseExponent n str data of
        Inl e \<Rightarrow> Inl e
      | Inr (result, data1) \<Rightarrow>
          if errorCode data1 \<noteq> ParseError_None then Inr (0, data1)
          else parseMulDiv_loop n str result data1)"
| "parseMulDiv_loop 0 str result data = Inl DepthExceeded"
| "parseMulDiv_loop (Suc n) str result data =
     (let data1 = data\<lparr>currentPosition := skipWhitespace str (currentPosition data)\<rparr>;
          c = charAt str (currentPosition data1)
      in if c \<noteq> CHR ''*'' \<and> c \<noteq> CHR ''/'' then Inr (result, data1)
         else
           (case parseExponent n str (data1\<lparr>currentPosition := Suc (currentPosition data1)\<rparr>) of
              Inl e \<Rightarrow> Inl e
            | Inr (result2, data2) \<Rightarrow>
                if errorCode data2 \<noteq> ParseError_None then Inr (0, data2)
                else if c = CHR ''*'' then parseMulDiv_loop n str (result * result2) data2
                else if result2 = 0 then Inr (0, data2\<lparr>errorCode := ParseError_Div0\<rparr>)
                else
                  (case divide_ValueType result result2 of
                     None \<Rightarrow> Inl DivisionOverflow
                   | Some q \<Rightarrow> parseMulDiv_loop n str q data2)))"
| "parseExponent 0 str data = Inl DepthExceeded"
| "parseExponent (Suc n) str data =
     (case parseUnaryMinus n str data of
        Inl e \<Rightarrow> Inl e
      | Inr (result, data1) \<Rightarrow>
          if errorCode data1 \<noteq> ParseError_None then Inr (result, data1)
          else
            (let data2 = data1\<lparr>currentPosition := skipWhitespace str (currentPosition data1)\<rparr>
             in if charAt str (currentPosition data2) \<noteq> CHR ''^'' then Inr (result, data2)
                else
                  (case parseExponent n str
                          (data2\<lparr>currentPosition := Suc (currentPosition data2)\<rparr>) of
                     Inl e \<Rightarrow> Inl e
                   | Inr (result2, data3) \<Rightarrow>
                       if errorCode data3 \<noteq> ParseError_None then Inr (result, data3)
                       else if result2 = 0 then Inr (1, data3)
                       else if sint result2 < 0 \<and> result = 0
                         then Inr (0, data3\<lparr>errorCode := ParseError_Div0\<rparr>)
                       else if sint result2 < 0 then Inr (0, data3)
                       else Inr (parseExponent_while result result result2, data3))))"
| "parseUnaryMinus 0 str data = Inl DepthExceeded"
| "parseUnaryMinus (Suc n) str data =
     (let data1 = data\<lparr>currentPosition := skipWhitespace str (currentPosition data)\<rparr>;
          c = charAt str (currentPosition data1);
          data2 = (if c = CHR ''-''
                   then data1\<lparr>currentPosition := Suc (currentPosition data1)\<rparr> else data1)
      in case parseParentheses n str data2 of
           Inl e \<Rightarrow> Inl e
         | Inr (result, data3) \<Rightarrow> Inr (if c = CHR ''-'' then - result else result, data3))"
| "parseParentheses 0 str data = Inl DepthExceeded"
| "parseParentheses (Suc n) str data =
     (let data1 = data\<lparr>currentPosition := skipWhitespace str (currentPosition data)\<rparr>
      in if charAt str (currentPosition data1) \<noteq> CHR ''('' then Inr (parseValue str data1)
         else
           (case parseAddSubtract n str (data1\<lparr>currentPosition := Suc (currentPosition data1)\<rparr>) of
              Inl e \<Rightarrow> Inl e
            | Inr (result, data2) \<Rightarrow>
                (let data3 = data2\<lparr>currentPosition := skipWhitespace str (currentPosition data2)\<rparr>
                 in if charAt str (currentPosition data3) \<noteq> CHR '')''
                    then Inr (0, data3\<lparr>errorCode := ParseError_NoClosingParenthesis\<rparr>)
                    else Inr (result, data3\<lparr>currentPosition := Suc (currentPosition data3)\<rparr>))))"
  by pat_completeness auto
termination
  by (relation "measure (case_sum (case_sum fst (case_sum fst fst))
        (case_sum (case_sum fst fst) (case_sum fst fst)))") simp_all

text \<open>\<^verbatim>\<open>parseInputString\<close>: the main parsing function.\<close>

definition parseInputString :: "nat \<Rightarrow> string \<Rightarrow> ParseData \<Rightarrow> fault + ValueType \<times> ParseData" where
  "parseInputString n str data =
     (case parseAddSubtract n str data of
        Inl e \<Rightarrow> Inl e
      | Inr (result, data1) \<Rightarrow>
          if errorCode data1 \<noteq> ParseError_None then Inr (0, data1)
          else
            (let data2 = data1\<lparr>currentPosition := skipWhitespace str (currentPosition data1)\<rparr>
             in if charAt str (currentPosition data2) \<noteq> CHR 0x00
                then Inr (result, data2\<lparr>errorCode := ParseError_Syntax\<rparr>)
                else Inr (result, data2)))"

text \<open>The \<open>ParseData\<close> that \<open>main\<close> builds for an argument: \<^verbatim>\<open>{ argv[argInd], ParseError_None }\<close>.\<close>

definition initialData :: ParseData where
  "initialData = \<lparr>currentPosition = 0, errorCode = ParseError_None\<rparr>"

text \<open>
  One run of the parser on an input, as \<open>main\<close> does it. A depth of
  \<open>5 * length str + 5\<close> calls is enough for every input (each chain of five nested
  calls from \<open>parseAddSubtract\<close> back to itself consumes a parenthesis), so the run
  never ends with \<open>Inl DepthExceeded\<close>.
\<close>

definition runParser :: "string \<Rightarrow> fault + ValueType \<times> ParseData" where
  "runParser str = parseInputString (5 * length str + 5) str initialData"

text \<open>
  \<^verbatim>\<open>printErrorMsg\<close>: the text written to the standard output, as one string. The
  array \<open>errorMessages\<close> is indexed by \<open>errorCode - 1\<close>, so it has no entry for
  \<open>ParseError_None\<close> (and \<open>main\<close> calls \<open>printErrorMsg\<close> only when the error is set). The
  loop writes one space for each character between the start of the input and the cursor.
\<close>

definition errorMessages :: "ParseErrorCode \<Rightarrow> string option" where
  "errorMessages e =
     (case e of
        ParseError_None \<Rightarrow> None
      | ParseError_Syntax \<Rightarrow> Some ''Syntax error''
      | ParseError_Div0 \<Rightarrow> Some ''Division by 0''
      | ParseError_NoClosingParenthesis \<Rightarrow> Some ''Expecting )'')"

definition printErrorMsg :: "string \<Rightarrow> ParseData \<Rightarrow> string option" where
  "printErrorMsg str data =
     (case errorMessages (errorCode data) of
        None \<Rightarrow> None
      | Some msg \<Rightarrow>
          Some (str @ [CHR 0x0A] @ replicate (currentPosition data) (CHR '' '') @ ''^''
                @ [CHR 0x0A] @ msg @ [CHR 0x0A]))"

section \<open>Predicates for the general properties of the levels\<close>

text \<open>
  \<open>level_inv f\<close>: a parsing function never moves the cursor back and never moves it
  past the end of the input.
\<close>

definition level_inv :: "(string \<Rightarrow> ParseData \<Rightarrow> fault + ValueType \<times> ParseData) \<Rightarrow> bool" where
  "level_inv f \<longleftrightarrow>
     (\<forall>str data v d. f str data = Inr (v, d) \<longrightarrow>
        currentPosition data \<le> currentPosition d
        \<and> (currentPosition data \<le> length str \<longrightarrow> currentPosition d \<le> length str))"

text \<open>
  \<open>more_fuel n f\<close>: what a call ends with under depth bound \<open>n\<close>, unless that is
  \<open>Inl DepthExceeded\<close>, is what it ends with under every larger bound.
\<close>

definition more_fuel ::
  "nat \<Rightarrow> (nat \<Rightarrow> string \<Rightarrow> ParseData \<Rightarrow> fault + ValueType \<times> ParseData) \<Rightarrow> bool" where
  "more_fuel n f \<longleftrightarrow>
     (\<forall>m str data. n \<le> m \<longrightarrow> f n str data \<noteq> Inl DepthExceeded
        \<longrightarrow> f m str data = f n str data)"

text \<open>
  \<open>returns_within n c f\<close>: the depth bound is not exhausted when \<open>n\<close> is at least five
  times the number of characters left, plus \<open>c\<close>.
\<close>

definition returns_within ::
  "nat \<Rightarrow> nat \<Rightarrow> (string \<Rightarrow> ParseData \<Rightarrow> fault + ValueType \<times> ParseData) \<Rightarrow> bool" where
  "returns_within n c f \<longleftrightarrow>
     (\<forall>str data. 5 * (length str - currentPosition data) + c \<le> n
        \<longrightarrow> f str data \<noteq> Inl DepthExceeded)"

section \<open>General properties: cursor movement, depth bound, termination\<close>

lemma skipWhitespace_ge: "p \<le> skipWhitespace str p"
proof (induction str p rule: skipWhitespace.induct)
  case (1 str p)
  show ?case
  proof (cases "isspace (charAt str p)")
    case True
    with 1 have "Suc p \<le> skipWhitespace str (Suc p)" by simp
    with True show ?thesis by (subst skipWhitespace.simps) simp
  next
    case False
    then show ?thesis by (subst skipWhitespace.simps) simp
  qed
qed

lemma skipWhitespace_le_length: "p \<le> length str \<Longrightarrow> skipWhitespace str p \<le> length str"
proof (induction str p rule: skipWhitespace.induct)
  case (1 str p)
  show ?case
  proof (cases "isspace (charAt str p)")
    case True
    then have "Suc p \<le> length str" using isspace_charAt_less [of str p] by simp
    with 1 True show ?thesis by (subst skipWhitespace.simps) simp
  next
    case False
    with 1 show ?thesis by (subst skipWhitespace.simps) simp
  qed
qed

lemma skipWhitespace_not_space: "\<not> isspace (charAt str (skipWhitespace str p))"
proof (induction str p rule: skipWhitespace.induct)
  case (1 str p)
  show ?case
  proof (cases "isspace (charAt str p)")
    case True
    with 1 show ?thesis by (subst skipWhitespace.simps) simp
  next
    case False
    then show ?thesis by (subst skipWhitespace.simps) simp
  qed
qed

lemma skipWhitespace_all_space:
  "p \<le> i \<Longrightarrow> i < skipWhitespace str p \<Longrightarrow> isspace (charAt str i)"
proof (induction str p rule: skipWhitespace.induct)
  case (1 str p)
  show ?case
  proof (cases "isspace (charAt str p)")
    case True
    show ?thesis
    proof (cases "i = p")
      case True
      with \<open>isspace (charAt str p)\<close> show ?thesis by simp
    next
      case False
      with 1(2) have "Suc p \<le> i" by simp
      moreover from 1(3) True have "i < skipWhitespace str (Suc p)"
        by (subst (asm) skipWhitespace.simps) simp
      ultimately show ?thesis using 1(1) True by simp
    qed
  next
    case False
    with 1(3) have "i < p" by (subst (asm) skipWhitespace.simps) simp
    with 1(2) show ?thesis by simp
  qed
qed

lemma skipWhitespace_idem: "skipWhitespace str (skipWhitespace str p) = skipWhitespace str p"
  using skipWhitespace_not_space [of str p] by (subst skipWhitespace.simps) simp

lemma scanDigits_ge: "p \<le> snd (scanDigits str p acc)"
proof (induction str p acc rule: scanDigits.induct)
  case (1 str p acc)
  show ?case
  proof (cases "isdigit (charAt str p)")
    case True
    with 1 have "Suc p \<le> snd (scanDigits str (Suc p) (acc * 10 + (int (of_char (charAt str p)) - 48)))"
      by simp
    with True show ?thesis by (subst scanDigits.simps) simp
  next
    case False
    then show ?thesis by (subst scanDigits.simps) simp
  qed
qed

lemma scanDigits_le_length: "p \<le> length str \<Longrightarrow> snd (scanDigits str p acc) \<le> length str"
proof (induction str p acc rule: scanDigits.induct)
  case (1 str p acc)
  show ?case
  proof (cases "isdigit (charAt str p)")
    case True
    then have "Suc p \<le> length str" using isdigit_charAt_less [of str p] by simp
    with 1 True show ?thesis by (subst scanDigits.simps) simp
  next
    case False
    with 1 show ?thesis by (subst scanDigits.simps) simp
  qed
qed

lemma charAt_nonzero_less: "charAt str p \<noteq> CHR 0x00 \<Longrightarrow> p < length str"
  by (simp add: charAt_def split: if_splits)

lemma strtoll_ge: "nptr \<le> snd (strtoll str nptr)"
proof -
  let ?p = "skipWhitespace str nptr"
  let ?c = "charAt str ?p"
  let ?q = "if ?c = CHR ''+'' \<or> ?c = CHR ''-'' then Suc ?p else ?p"
  have "nptr \<le> ?p" by (rule skipWhitespace_ge)
  then have "nptr \<le> ?q" by simp
  also have "?q \<le> snd (scanDigits str ?q 0)" by (rule scanDigits_ge)
  finally show ?thesis
    by (simp add: strtoll_def Let_def case_prod_beta)
qed

lemma strtoll_le_length:
  assumes "nptr \<le> length str"
  shows "snd (strtoll str nptr) \<le> length str"
proof -
  let ?p = "skipWhitespace str nptr"
  let ?c = "charAt str ?p"
  let ?q = "if ?c = CHR ''+'' \<or> ?c = CHR ''-'' then Suc ?p else ?p"
  have p: "?p \<le> length str" using assms by (rule skipWhitespace_le_length)
  have "?q \<le> length str"
  proof (cases "?c = CHR ''+'' \<or> ?c = CHR ''-''")
    case True
    then have "?c \<noteq> CHR 0x00" by auto
    then have "?p < length str" by (rule charAt_nonzero_less)
    with True show ?thesis by simp
  next
    case False
    with p show ?thesis by simp
  qed
  then have "snd (scanDigits str ?q 0) \<le> length str" by (rule scanDigits_le_length)
  with assms show ?thesis
    by (simp add: strtoll_def Let_def case_prod_beta)
qed

lemma parseValue_position_ge:
  "currentPosition data \<le> currentPosition (snd (parseValue str data))"
proof -
  have "currentPosition data \<le> skipWhitespace str (currentPosition data)"
    by (rule skipWhitespace_ge)
  also have "\<dots> \<le> snd (strtoll str (skipWhitespace str (currentPosition data)))"
    by (rule strtoll_ge)
  finally show ?thesis
    by (simp add: parseValue_def Let_def case_prod_beta)
qed

lemma parseValue_position_le_length:
  assumes "currentPosition data \<le> length str"
  shows "currentPosition (snd (parseValue str data)) \<le> length str"
proof -
  have "skipWhitespace str (currentPosition data) \<le> length str"
    using assms by (rule skipWhitespace_le_length)
  then have "snd (strtoll str (skipWhitespace str (currentPosition data))) \<le> length str"
    by (rule strtoll_le_length)
  then show ?thesis
    by (simp add: parseValue_def Let_def case_prod_beta)
qed



lemma level_invD:
  "level_inv f \<Longrightarrow> f str data = Inr (v, d) \<Longrightarrow>
     currentPosition data \<le> currentPosition d
     \<and> (currentPosition data \<le> length str \<longrightarrow> currentPosition d \<le> length str)"
  unfolding level_inv_def by blast

lemma Suc_le_length: "charAt str p \<noteq> CHR 0x00 \<Longrightarrow> Suc p \<le> length str"
  using charAt_nonzero_less [of str p] by simp

lemma parse_position_all:
  "level_inv (parseAddSubtract n)
   \<and> (\<forall>r. level_inv (\<lambda>str. parseAddSubtract_loop n str r))
   \<and> level_inv (parseMulDiv n)
   \<and> (\<forall>r. level_inv (\<lambda>str. parseMulDiv_loop n str r))
   \<and> level_inv (parseExponent n)
   \<and> level_inv (parseUnaryMinus n)
   \<and> level_inv (parseParentheses n)"
proof (induction n)
  case 0
  show ?case by (simp add: level_inv_def)
next
  case (Suc n)
  then have AS: "level_inv (parseAddSubtract n)"
    and ASL: "\<And>r. level_inv (\<lambda>str. parseAddSubtract_loop n str r)"
    and MD: "level_inv (parseMulDiv n)"
    and MDL: "\<And>r. level_inv (\<lambda>str. parseMulDiv_loop n str r)"
    and EX: "level_inv (parseExponent n)"
    and UM: "level_inv (parseUnaryMinus n)"
    and PP: "level_inv (parseParentheses n)"
    by simp_all
  have 1: "level_inv (parseAddSubtract (Suc n))"
    unfolding level_inv_def
    by (fastforce split: sum.splits if_splits dest: level_invD [OF MD] level_invD [OF ASL])
  have 2: "level_inv (\<lambda>str. parseAddSubtract_loop (Suc n) str r)" for r
    unfolding level_inv_def
  proof (intro allI impI)
    fix str data v d
    assume a: "parseAddSubtract_loop (Suc n) str r data = Inr (v, d)"
    let ?p = "skipWhitespace str (currentPosition data)"
    have p: "currentPosition data \<le> ?p"
      "currentPosition data \<le> length str \<Longrightarrow> ?p \<le> length str"
      by (simp_all add: skipWhitespace_ge skipWhitespace_le_length)
    have q: "Suc ?p \<le> length str" if "charAt str ?p = CHR ''+'' \<or> charAt str ?p = CHR ''-''"
      using that by (auto intro: Suc_le_length)
    from a p q show "currentPosition data \<le> currentPosition d
        \<and> (currentPosition data \<le> length str \<longrightarrow> currentPosition d \<le> length str)"
      by (fastforce simp: Let_def split: sum.splits if_splits
            dest: level_invD [OF MD] level_invD [OF ASL])
  qed
  have 3: "level_inv (parseMulDiv (Suc n))"
    unfolding level_inv_def
    by (fastforce split: sum.splits if_splits dest: level_invD [OF EX] level_invD [OF MDL])
  have 4: "level_inv (\<lambda>str. parseMulDiv_loop (Suc n) str r)" for r
    unfolding level_inv_def
  proof (intro allI impI)
    fix str data v d
    assume a: "parseMulDiv_loop (Suc n) str r data = Inr (v, d)"
    let ?p = "skipWhitespace str (currentPosition data)"
    have p: "currentPosition data \<le> ?p"
      "currentPosition data \<le> length str \<Longrightarrow> ?p \<le> length str"
      by (simp_all add: skipWhitespace_ge skipWhitespace_le_length)
    have q: "Suc ?p \<le> length str" if "charAt str ?p = CHR ''*'' \<or> charAt str ?p = CHR ''/''"
      using that by (auto intro: Suc_le_length)
    from a p q show "currentPosition data \<le> currentPosition d
        \<and> (currentPosition data \<le> length str \<longrightarrow> currentPosition d \<le> length str)"
      by (fastforce simp: Let_def split: sum.splits option.splits if_splits
            dest: level_invD [OF EX] level_invD [OF MDL])
  qed
  have 5: "level_inv (parseExponent (Suc n))"
    unfolding level_inv_def
  proof (intro allI impI)
    fix str data v d
    assume a: "parseExponent (Suc n) str data = Inr (v, d)"
    then obtain r d1 where um: "parseUnaryMinus n str data = Inr (r, d1)"
      by (auto split: sum.splits)
    let ?p = "skipWhitespace str (currentPosition d1)"
    note u = level_invD [OF UM um]
    have p: "currentPosition d1 \<le> ?p"
      "currentPosition d1 \<le> length str \<Longrightarrow> ?p \<le> length str"
      by (simp_all add: skipWhitespace_ge skipWhitespace_le_length)
    have q: "Suc ?p \<le> length str" if "charAt str ?p = CHR ''^''"
      using that by (auto intro: Suc_le_length)
    from a um u p q show "currentPosition data \<le> currentPosition d
        \<and> (currentPosition data \<le> length str \<longrightarrow> currentPosition d \<le> length str)"
      by (fastforce simp: Let_def split: sum.splits if_splits dest: level_invD [OF EX])
  qed
  have 6: "level_inv (parseUnaryMinus (Suc n))"
    unfolding level_inv_def
  proof (intro allI impI)
    fix str data v d
    assume a: "parseUnaryMinus (Suc n) str data = Inr (v, d)"
    let ?p = "skipWhitespace str (currentPosition data)"
    have p: "currentPosition data \<le> ?p"
      "currentPosition data \<le> length str \<Longrightarrow> ?p \<le> length str"
      by (simp_all add: skipWhitespace_ge skipWhitespace_le_length)
    have q: "Suc ?p \<le> length str" if "charAt str ?p = CHR ''-''"
      using that by (auto intro: Suc_le_length)
    from a p q show "currentPosition data \<le> currentPosition d
        \<and> (currentPosition data \<le> length str \<longrightarrow> currentPosition d \<le> length str)"
      by (fastforce simp: Let_def split: sum.splits if_splits dest: level_invD [OF PP])
  qed
  have 7: "level_inv (parseParentheses (Suc n))"
    unfolding level_inv_def
  proof (intro allI impI)
    fix str data v d
    assume a: "parseParentheses (Suc n) str data = Inr (v, d)"
    let ?p = "skipWhitespace str (currentPosition data)"
    let ?d1 = "data\<lparr>currentPosition := ?p\<rparr>"
    have p: "currentPosition data \<le> ?p"
      "currentPosition data \<le> length str \<Longrightarrow> ?p \<le> length str"
      by (simp_all add: skipWhitespace_ge skipWhitespace_le_length)
    show "currentPosition data \<le> currentPosition d
        \<and> (currentPosition data \<le> length str \<longrightarrow> currentPosition d \<le> length str)"
    proof (cases "charAt str ?p = CHR ''(''")
      case False
      with a have d: "d = snd (parseValue str ?d1)" by (simp add: Let_def)
      have "?p \<le> currentPosition (snd (parseValue str ?d1))"
        using parseValue_position_ge [of ?d1 str] by simp
      moreover have "?p \<le> length str \<Longrightarrow> currentPosition (snd (parseValue str ?d1)) \<le> length str"
        using parseValue_position_le_length [of ?d1 str] by simp
      ultimately show ?thesis using p d by auto
    next
      case True
      then have q: "Suc ?p \<le> length str" by (auto intro: Suc_le_length)
      from a True obtain r d2 where
        as: "parseAddSubtract n str (?d1\<lparr>currentPosition := Suc ?p\<rparr>) = Inr (r, d2)"
        by (auto simp: Let_def split: sum.splits)
      let ?p2 = "skipWhitespace str (currentPosition d2)"
      note u = level_invD [OF AS as]
      have p2: "currentPosition d2 \<le> ?p2"
        "currentPosition d2 \<le> length str \<Longrightarrow> ?p2 \<le> length str"
        by (simp_all add: skipWhitespace_ge skipWhitespace_le_length)
      have q2: "Suc ?p2 \<le> length str" if "charAt str ?p2 = CHR '')''"
        using that by (auto intro: Suc_le_length)
      from a True as u p q p2 q2 show ?thesis
        by (auto simp: Let_def split: if_splits)
    qed
  qed
  from 1 2 3 4 5 6 7 show ?case by blast
qed


lemma more_fuelD:
  "more_fuel n f \<Longrightarrow> n \<le> m \<Longrightarrow> f n str data \<noteq> Inl DepthExceeded
     \<Longrightarrow> f m str data = f n str data"
  unfolding more_fuel_def by blast

lemma parse_more_fuel_all:
  "more_fuel n parseAddSubtract
   \<and> (\<forall>r. more_fuel n (\<lambda>n str. parseAddSubtract_loop n str r))
   \<and> more_fuel n parseMulDiv
   \<and> (\<forall>r. more_fuel n (\<lambda>n str. parseMulDiv_loop n str r))
   \<and> more_fuel n parseExponent
   \<and> more_fuel n parseUnaryMinus
   \<and> more_fuel n parseParentheses"
proof (induction n)
  case 0
  show ?case by (simp add: more_fuel_def)
next
  case (Suc n)
  have step: "more_fuel (Suc n) f"
    if "\<And>k str data. n \<le> k \<Longrightarrow> f (Suc n) str data \<noteq> Inl DepthExceeded
          \<Longrightarrow> f (Suc k) str data = f (Suc n) str data"
    for f
    unfolding more_fuel_def
  proof (intro allI impI)
    fix m str data
    assume le: "Suc n \<le> m" and a: "f (Suc n) str data \<noteq> Inl DepthExceeded"
    from le obtain k where m: "m = Suc k" and k: "n \<le> k" by (cases m) auto
    from that [OF k a] show "f m str data = f (Suc n) str data" by (simp add: m)
  qed
  from Suc have AS0: "more_fuel n parseAddSubtract"
    and ASL0: "\<And>r. more_fuel n (\<lambda>n str. parseAddSubtract_loop n str r)"
    and MD0: "more_fuel n parseMulDiv"
    and MDL0: "\<And>r. more_fuel n (\<lambda>n str. parseMulDiv_loop n str r)"
    and EX0: "more_fuel n parseExponent"
    and UM0: "more_fuel n parseUnaryMinus"
    and PP0: "more_fuel n parseParentheses"
    by simp_all
  have AS: "parseAddSubtract k str data = parseAddSubtract n str data"
    if "n \<le> k" "parseAddSubtract n str data \<noteq> Inl DepthExceeded" for k str data
    by (rule more_fuelD [OF AS0 that])
  have ASL: "parseAddSubtract_loop k str acc data = parseAddSubtract_loop n str acc data"
    if "n \<le> k" "parseAddSubtract_loop n str acc data \<noteq> Inl DepthExceeded" for k str acc data
    using more_fuelD [OF ASL0 that(1), where r1 = acc] that(2) by simp
  have MD: "parseMulDiv k str data = parseMulDiv n str data"
    if "n \<le> k" "parseMulDiv n str data \<noteq> Inl DepthExceeded" for k str data
    by (rule more_fuelD [OF MD0 that])
  have MDL: "parseMulDiv_loop k str acc data = parseMulDiv_loop n str acc data"
    if "n \<le> k" "parseMulDiv_loop n str acc data \<noteq> Inl DepthExceeded" for k str acc data
    using more_fuelD [OF MDL0 that(1), where r1 = acc] that(2) by simp
  have EX: "parseExponent k str data = parseExponent n str data"
    if "n \<le> k" "parseExponent n str data \<noteq> Inl DepthExceeded" for k str data
    by (rule more_fuelD [OF EX0 that])
  have UM: "parseUnaryMinus k str data = parseUnaryMinus n str data"
    if "n \<le> k" "parseUnaryMinus n str data \<noteq> Inl DepthExceeded" for k str data
    by (rule more_fuelD [OF UM0 that])
  have PP: "parseParentheses k str data = parseParentheses n str data"
    if "n \<le> k" "parseParentheses n str data \<noteq> Inl DepthExceeded" for k str data
    by (rule more_fuelD [OF PP0 that])
  have 1: "more_fuel (Suc n) parseAddSubtract"
  proof (rule step)
    fix k str data
    assume k: "n \<le> k" and a: "parseAddSubtract (Suc n) str data \<noteq> Inl DepthExceeded"
    from a have "parseMulDiv n str data \<noteq> Inl DepthExceeded" by auto
    note md = MD [OF k this]
    show "parseAddSubtract (Suc k) str data = parseAddSubtract (Suc n) str data"
    proof (cases "parseMulDiv n str data")
      case (Inl e)
      with md show ?thesis by simp
    next
      case (Inr p)
      obtain x d1 where p: "p = (x, d1)" by (cases p)
      show ?thesis
      proof (cases "errorCode d1 \<noteq> ParseError_None")
        case True
        with Inr p md show ?thesis by simp
      next
        case False
        with a Inr p have "parseAddSubtract_loop n str x d1 \<noteq> Inl DepthExceeded" by simp
        from ASL [OF k this] Inr p md False show ?thesis by simp
      qed
    qed
  qed
  have 2: "more_fuel (Suc n) (\<lambda>n str. parseAddSubtract_loop n str acc)" for acc
  proof (rule step)
    fix k str data
    assume k: "n \<le> k" and a: "parseAddSubtract_loop (Suc n) str acc data \<noteq> Inl DepthExceeded"
    let ?d1 = "data\<lparr>currentPosition := skipWhitespace str (currentPosition data)\<rparr>"
    let ?c = "charAt str (currentPosition ?d1)"
    let ?d2 = "?d1\<lparr>currentPosition := Suc (currentPosition ?d1)\<rparr>"
    show "parseAddSubtract_loop (Suc k) str acc data = parseAddSubtract_loop (Suc n) str acc data"
    proof (cases "?c \<noteq> CHR ''+'' \<and> ?c \<noteq> CHR ''-''")
      case True
      then show ?thesis by (auto simp: Let_def)
    next
      case False
      with a have "parseMulDiv n str ?d2 \<noteq> Inl DepthExceeded" by (auto simp: Let_def)
      note md = MD [OF k this]
      show ?thesis
      proof (cases "parseMulDiv n str ?d2")
        case (Inl e)
        with md False show ?thesis by (auto simp: Let_def)
      next
        case (Inr p)
        obtain x d3 where p: "p = (x, d3)" by (cases p)
        show ?thesis
        proof (cases "errorCode d3 \<noteq> ParseError_None")
          case True
          with Inr p md False show ?thesis by (auto simp: Let_def)
        next
          case e: False
          show ?thesis
          proof (cases "?c = CHR ''+''")
            case True
            with a False Inr p e have "parseAddSubtract_loop n str (acc + x) d3 \<noteq> Inl DepthExceeded"
              by (simp add: Let_def)
            from ASL [OF k this] True False Inr p md e show ?thesis by (auto simp: Let_def)
          next
            case m: False
            with a False Inr p e have "parseAddSubtract_loop n str (acc - x) d3 \<noteq> Inl DepthExceeded"
              by (simp add: Let_def)
            from ASL [OF k this] m False Inr p md e show ?thesis by (auto simp: Let_def)
          qed
        qed
      qed
    qed
  qed
  have 3: "more_fuel (Suc n) parseMulDiv"
  proof (rule step)
    fix k str data
    assume k: "n \<le> k" and a: "parseMulDiv (Suc n) str data \<noteq> Inl DepthExceeded"
    from a have "parseExponent n str data \<noteq> Inl DepthExceeded" by auto
    note ex = EX [OF k this]
    show "parseMulDiv (Suc k) str data = parseMulDiv (Suc n) str data"
    proof (cases "parseExponent n str data")
      case (Inl e)
      with ex show ?thesis by simp
    next
      case (Inr p)
      obtain x d1 where p: "p = (x, d1)" by (cases p)
      show ?thesis
      proof (cases "errorCode d1 \<noteq> ParseError_None")
        case True
        with Inr p ex show ?thesis by simp
      next
        case False
        with a Inr p have "parseMulDiv_loop n str x d1 \<noteq> Inl DepthExceeded" by simp
        from MDL [OF k this] Inr p ex False show ?thesis by simp
      qed
    qed
  qed
  have 4: "more_fuel (Suc n) (\<lambda>n str. parseMulDiv_loop n str acc)" for acc
  proof (rule step)
    fix k str data
    assume k: "n \<le> k" and a: "parseMulDiv_loop (Suc n) str acc data \<noteq> Inl DepthExceeded"
    let ?d1 = "data\<lparr>currentPosition := skipWhitespace str (currentPosition data)\<rparr>"
    let ?c = "charAt str (currentPosition ?d1)"
    let ?d2 = "?d1\<lparr>currentPosition := Suc (currentPosition ?d1)\<rparr>"
    show "parseMulDiv_loop (Suc k) str acc data = parseMulDiv_loop (Suc n) str acc data"
    proof (cases "?c \<noteq> CHR ''*'' \<and> ?c \<noteq> CHR ''/''")
      case True
      then show ?thesis by (auto simp: Let_def)
    next
      case False
      with a have "parseExponent n str ?d2 \<noteq> Inl DepthExceeded" by (auto simp: Let_def)
      note ex = EX [OF k this]
      show ?thesis
      proof (cases "parseExponent n str ?d2")
        case (Inl e)
        with ex False show ?thesis by (auto simp: Let_def)
      next
        case (Inr p)
        obtain x d3 where p: "p = (x, d3)" by (cases p)
        show ?thesis
        proof (cases "errorCode d3 \<noteq> ParseError_None")
          case True
          with Inr p ex False show ?thesis by (auto simp: Let_def)
        next
          case e: False
          show ?thesis
          proof (cases "?c = CHR ''*''")
            case True
            with a False Inr p e have "parseMulDiv_loop n str (acc * x) d3 \<noteq> Inl DepthExceeded"
              by (simp add: Let_def)
            from MDL [OF k this] True False Inr p ex e show ?thesis by (auto simp: Let_def)
          next
            case m: False
            show ?thesis
            proof (cases "divide_ValueType acc x")
              case None
              with m False Inr p ex e show ?thesis by (auto simp: Let_def)
            next
              case (Some q)
              show ?thesis
              proof (cases "x = 0")
                case True
                with m False Inr p ex e show ?thesis by (auto simp: Let_def)
              next
                case nz: False
                with a m False Inr p e Some have "parseMulDiv_loop n str q d3 \<noteq> Inl DepthExceeded"
                  by (simp add: Let_def)
                from MDL [OF k this] nz m False Inr p ex e Some show ?thesis by (auto simp: Let_def)
              qed
            qed
          qed
        qed
      qed
    qed
  qed
  have 5: "more_fuel (Suc n) parseExponent"
  proof (rule step)
    fix k str data
    assume k: "n \<le> k" and a: "parseExponent (Suc n) str data \<noteq> Inl DepthExceeded"
    from a have "parseUnaryMinus n str data \<noteq> Inl DepthExceeded" by auto
    note um = UM [OF k this]
    show "parseExponent (Suc k) str data = parseExponent (Suc n) str data"
    proof (cases "parseUnaryMinus n str data")
      case (Inl e)
      with um show ?thesis by simp
    next
      case (Inr p)
      obtain x d1 where p: "p = (x, d1)" by (cases p)
      let ?d2 = "d1\<lparr>currentPosition := skipWhitespace str (currentPosition d1)\<rparr>"
      let ?d3 = "?d2\<lparr>currentPosition := Suc (currentPosition ?d2)\<rparr>"
      show ?thesis
      proof (cases "errorCode d1 \<noteq> ParseError_None \<or> charAt str (currentPosition ?d2) \<noteq> CHR ''^''")
        case True
        with Inr p um show ?thesis by (auto simp: Let_def)
      next
        case False
        with a Inr p have "parseExponent n str ?d3 \<noteq> Inl DepthExceeded"
          by (auto simp: Let_def)
        from EX [OF k this] False Inr p um show ?thesis by (simp add: Let_def)
      qed
    qed
  qed
  have 6: "more_fuel (Suc n) parseUnaryMinus"
  proof (rule step)
    fix k str data
    assume k: "n \<le> k" and a: "parseUnaryMinus (Suc n) str data \<noteq> Inl DepthExceeded"
    let ?d1 = "data\<lparr>currentPosition := skipWhitespace str (currentPosition data)\<rparr>"
    let ?d2 = "if charAt str (currentPosition ?d1) = CHR ''-''
               then ?d1\<lparr>currentPosition := Suc (currentPosition ?d1)\<rparr> else ?d1"
    from a have "parseParentheses n str ?d2 \<noteq> Inl DepthExceeded"
      by (auto simp: Let_def split: if_splits)
    from PP [OF k this] show "parseUnaryMinus (Suc k) str data = parseUnaryMinus (Suc n) str data"
      by (simp add: Let_def)
  qed
  have 7: "more_fuel (Suc n) parseParentheses"
  proof (rule step)
    fix k str data
    assume k: "n \<le> k" and a: "parseParentheses (Suc n) str data \<noteq> Inl DepthExceeded"
    let ?d1 = "data\<lparr>currentPosition := skipWhitespace str (currentPosition data)\<rparr>"
    let ?d2 = "?d1\<lparr>currentPosition := Suc (currentPosition ?d1)\<rparr>"
    show "parseParentheses (Suc k) str data = parseParentheses (Suc n) str data"
    proof (cases "charAt str (currentPosition ?d1) \<noteq> CHR ''(''")
      case True
      then show ?thesis by (simp add: Let_def)
    next
      case False
      with a have "parseAddSubtract n str ?d2 \<noteq> Inl DepthExceeded" by (auto simp: Let_def)
      from AS [OF k this] False show ?thesis by (simp add: Let_def)
    qed
  qed
  from 1 2 3 4 5 6 7 show ?case by blast
qed

lemma parseAddSubtract_position:
  "parseAddSubtract n str data = Inr (v, d) \<Longrightarrow> currentPosition data \<le> currentPosition d"
  using parse_position_all [of n] by (blast dest: level_invD)

lemma parseMulDiv_position:
  "parseMulDiv n str data = Inr (v, d) \<Longrightarrow> currentPosition data \<le> currentPosition d"
  using parse_position_all [of n] by (blast dest: level_invD)

lemma parseExponent_position:
  "parseExponent n str data = Inr (v, d) \<Longrightarrow> currentPosition data \<le> currentPosition d"
  using parse_position_all [of n] by (blast dest: level_invD)

lemma parseUnaryMinus_position:
  "parseUnaryMinus n str data = Inr (v, d) \<Longrightarrow> currentPosition data \<le> currentPosition d"
  using parse_position_all [of n] by (blast dest: level_invD)

lemma parseAddSubtract_within_input:
  "parseAddSubtract n str data = Inr (v, d) \<Longrightarrow> currentPosition data \<le> length str
     \<Longrightarrow> currentPosition d \<le> length str"
  using parse_position_all [of n] by (blast dest: level_invD)

lemma returns_withinD:
  "returns_within n c f \<Longrightarrow> 5 * (length str - currentPosition data) + c \<le> n
     \<Longrightarrow> f str data \<noteq> Inl DepthExceeded"
  unfolding returns_within_def by blast

lemma remaining_skip:
  "length str - skipWhitespace str p \<le> length str - p"
  using skipWhitespace_ge [of p str] by simp

lemma remaining_Suc:
  "charAt str p \<noteq> CHR 0x00 \<Longrightarrow> Suc (length str - Suc p) = length str - p"
  using charAt_nonzero_less [of str p] by simp

lemma parse_returns_all:
  "returns_within n 5 (parseAddSubtract n)
   \<and> (\<forall>acc. returns_within n 4 (\<lambda>str. parseAddSubtract_loop n str acc))
   \<and> returns_within n 4 (parseMulDiv n)
   \<and> (\<forall>acc. returns_within n 3 (\<lambda>str. parseMulDiv_loop n str acc))
   \<and> returns_within n 3 (parseExponent n)
   \<and> returns_within n 2 (parseUnaryMinus n)
   \<and> returns_within n 1 (parseParentheses n)"
proof (induction n)
  case 0
  show ?case by (simp add: returns_within_def)
next
  case (Suc n)
  then have AS: "returns_within n 5 (parseAddSubtract n)"
    and ASL: "\<And>acc. returns_within n 4 (\<lambda>str. parseAddSubtract_loop n str acc)"
    and MD: "returns_within n 4 (parseMulDiv n)"
    and MDL: "\<And>acc. returns_within n 3 (\<lambda>str. parseMulDiv_loop n str acc)"
    and EX: "returns_within n 3 (parseExponent n)"
    and UM: "returns_within n 2 (parseUnaryMinus n)"
    and PP: "returns_within n 1 (parseParentheses n)"
    by simp_all
  have 1: "returns_within (Suc n) 5 (parseAddSubtract (Suc n))"
    unfolding returns_within_def
  proof (intro allI impI)
    fix str :: string and data :: ParseData
    assume b: "5 * (length str - currentPosition data) + 5 \<le> Suc n"
    then have "5 * (length str - currentPosition data) + 4 \<le> n" by simp
    note md = returns_withinD [OF MD this]
    show "parseAddSubtract (Suc n) str data \<noteq> Inl DepthExceeded"
    proof (cases "parseMulDiv n str data")
      case (Inl e)
      with md show ?thesis by simp
    next
      case (Inr p)
      obtain x d1 where p: "p = (x, d1)" by (cases p)
      from parseMulDiv_position [of n str data x d1] Inr p b
      have "5 * (length str - currentPosition d1) + 4 \<le> n" by simp
      from returns_withinD [OF ASL this, of x] Inr p show ?thesis by simp
    qed
  qed
  have 2: "returns_within (Suc n) 4 (\<lambda>str. parseAddSubtract_loop (Suc n) str acc)" for acc
    unfolding returns_within_def
  proof (intro allI impI)
    fix str :: string and data :: ParseData
    assume b: "5 * (length str - currentPosition data) + 4 \<le> Suc n"
    let ?p = "skipWhitespace str (currentPosition data)"
    let ?d1 = "data\<lparr>currentPosition := ?p\<rparr>"
    let ?c = "charAt str ?p"
    show "parseAddSubtract_loop (Suc n) str acc data \<noteq> Inl DepthExceeded"
    proof (cases "?c \<noteq> CHR ''+'' \<and> ?c \<noteq> CHR ''-''")
      case True
      then show ?thesis by (simp add: Let_def)
    next
      case False
      then have "?c \<noteq> CHR 0x00" by auto
      from remaining_Suc [OF this] remaining_skip [of str "currentPosition data"] b
      have b1: "5 * (length str - Suc ?p) + 4 \<le> n" by simp
      then have "5 * (length str - currentPosition (?d1\<lparr>currentPosition := Suc ?p\<rparr>)) + 4 \<le> n"
        by simp
      note md = returns_withinD [OF MD this]
      show ?thesis
      proof (cases "parseMulDiv n str (?d1\<lparr>currentPosition := Suc ?p\<rparr>)")
        case (Inl e)
        with md False show ?thesis by (auto simp: Let_def)
      next
        case (Inr q)
        obtain x d2 where q: "q = (x, d2)" by (cases q)
        from parseMulDiv_position [of n str "?d1\<lparr>currentPosition := Suc ?p\<rparr>" x d2] Inr q b1
        have b2: "5 * (length str - currentPosition d2) + 4 \<le> n" by simp
        from returns_withinD [OF ASL b2, of "acc + x"] returns_withinD [OF ASL b2, of "acc - x"]
          False Inr q
        show ?thesis by (auto simp: Let_def)
      qed
    qed
  qed
  have 3: "returns_within (Suc n) 4 (parseMulDiv (Suc n))"
    unfolding returns_within_def
  proof (intro allI impI)
    fix str :: string and data :: ParseData
    assume b: "5 * (length str - currentPosition data) + 4 \<le> Suc n"
    then have "5 * (length str - currentPosition data) + 3 \<le> n" by simp
    note ex = returns_withinD [OF EX this]
    show "parseMulDiv (Suc n) str data \<noteq> Inl DepthExceeded"
    proof (cases "parseExponent n str data")
      case (Inl e)
      with ex show ?thesis by simp
    next
      case (Inr p)
      obtain x d1 where p: "p = (x, d1)" by (cases p)
      from parseExponent_position [of n str data x d1] Inr p b
      have "5 * (length str - currentPosition d1) + 3 \<le> n" by simp
      from returns_withinD [OF MDL this, of x] Inr p show ?thesis by simp
    qed
  qed
  have 4: "returns_within (Suc n) 3 (\<lambda>str. parseMulDiv_loop (Suc n) str acc)" for acc
    unfolding returns_within_def
  proof (intro allI impI)
    fix str :: string and data :: ParseData
    assume b: "5 * (length str - currentPosition data) + 3 \<le> Suc n"
    let ?p = "skipWhitespace str (currentPosition data)"
    let ?d1 = "data\<lparr>currentPosition := ?p\<rparr>"
    let ?c = "charAt str ?p"
    show "parseMulDiv_loop (Suc n) str acc data \<noteq> Inl DepthExceeded"
    proof (cases "?c \<noteq> CHR ''*'' \<and> ?c \<noteq> CHR ''/''")
      case True
      then show ?thesis by (simp add: Let_def)
    next
      case False
      then have "?c \<noteq> CHR 0x00" by auto
      from remaining_Suc [OF this] remaining_skip [of str "currentPosition data"] b
      have b1: "5 * (length str - Suc ?p) + 3 \<le> n" by simp
      then have "5 * (length str - currentPosition (?d1\<lparr>currentPosition := Suc ?p\<rparr>)) + 3 \<le> n"
        by simp
      note ex = returns_withinD [OF EX this]
      show ?thesis
      proof (cases "parseExponent n str (?d1\<lparr>currentPosition := Suc ?p\<rparr>)")
        case (Inl e)
        with ex False show ?thesis by (auto simp: Let_def)
      next
        case (Inr q)
        obtain x d2 where q: "q = (x, d2)" by (cases q)
        from parseExponent_position [of n str "?d1\<lparr>currentPosition := Suc ?p\<rparr>" x d2] Inr q b1
        have b2: "5 * (length str - currentPosition d2) + 3 \<le> n" by simp
        have l: "parseMulDiv_loop n str y d2 \<noteq> Inl DepthExceeded" for y
          using returns_withinD [OF MDL b2, of y] by simp
        from l False Inr q show ?thesis
          by (auto simp: Let_def split: option.splits)
      qed
    qed
  qed
  have 5: "returns_within (Suc n) 3 (parseExponent (Suc n))"
    unfolding returns_within_def
  proof (intro allI impI)
    fix str :: string and data :: ParseData
    assume b: "5 * (length str - currentPosition data) + 3 \<le> Suc n"
    then have "5 * (length str - currentPosition data) + 2 \<le> n" by simp
    note um = returns_withinD [OF UM this]
    show "parseExponent (Suc n) str data \<noteq> Inl DepthExceeded"
    proof (cases "parseUnaryMinus n str data")
      case (Inl e)
      with um show ?thesis by simp
    next
      case (Inr q)
      obtain x d1 where q: "q = (x, d1)" by (cases q)
      let ?p = "skipWhitespace str (currentPosition d1)"
      let ?d2 = "d1\<lparr>currentPosition := ?p\<rparr>"
      show ?thesis
      proof (cases "errorCode d1 \<noteq> ParseError_None \<or> charAt str ?p \<noteq> CHR ''^''")
        case True
        with Inr q show ?thesis by (auto simp: Let_def)
      next
        case False
        then have "charAt str ?p \<noteq> CHR 0x00" by auto
        from remaining_Suc [OF this] remaining_skip [of str "currentPosition d1"]
          parseUnaryMinus_position [of n str data x d1] Inr q b
        have "5 * (length str - Suc ?p) + 3 \<le> n" by simp
        then have "5 * (length str - currentPosition (?d2\<lparr>currentPosition := Suc ?p\<rparr>)) + 3 \<le> n"
          by simp
        from returns_withinD [OF EX this] Inr q False show ?thesis
          by (auto simp: Let_def split: sum.splits)
      qed
    qed
  qed
  have 6: "returns_within (Suc n) 2 (parseUnaryMinus (Suc n))"
    unfolding returns_within_def
  proof (intro allI impI)
    fix str :: string and data :: ParseData
    assume b: "5 * (length str - currentPosition data) + 2 \<le> Suc n"
    let ?p = "skipWhitespace str (currentPosition data)"
    let ?d1 = "data\<lparr>currentPosition := ?p\<rparr>"
    let ?d2 = "if charAt str ?p = CHR ''-'' then ?d1\<lparr>currentPosition := Suc ?p\<rparr> else ?d1"
    have "length str - currentPosition ?d2 \<le> length str - currentPosition data"
      using remaining_skip [of str "currentPosition data"] by auto
    with b have "5 * (length str - currentPosition ?d2) + 1 \<le> n" by linarith
    from returns_withinD [OF PP this]
    show "parseUnaryMinus (Suc n) str data \<noteq> Inl DepthExceeded"
      by (auto simp: Let_def split: if_splits sum.splits)
  qed
  have 7: "returns_within (Suc n) 1 (parseParentheses (Suc n))"
    unfolding returns_within_def
  proof (intro allI impI)
    fix str :: string and data :: ParseData
    assume b: "5 * (length str - currentPosition data) + 1 \<le> Suc n"
    let ?p = "skipWhitespace str (currentPosition data)"
    let ?d1 = "data\<lparr>currentPosition := ?p\<rparr>"
    show "parseParentheses (Suc n) str data \<noteq> Inl DepthExceeded"
    proof (cases "charAt str ?p \<noteq> CHR ''(''")
      case True
      then show ?thesis by (simp add: Let_def)
    next
      case False
      then have "charAt str ?p \<noteq> CHR 0x00" by auto
      from remaining_Suc [OF this] remaining_skip [of str "currentPosition data"] b
      have "5 * (length str - Suc ?p) + 5 \<le> n" by simp
      then have "5 * (length str - currentPosition (?d1\<lparr>currentPosition := Suc ?p\<rparr>)) + 5 \<le> n"
        by simp
      from returns_withinD [OF AS this] False show ?thesis
        by (auto simp: Let_def split: sum.splits)
    qed
  qed
  from 1 2 3 4 5 6 7 show ?case by blast
qed

lemma parseAddSubtract_returns:
  "5 * (length str - currentPosition data) + 5 \<le> n
   \<Longrightarrow> parseAddSubtract n str data \<noteq> Inl DepthExceeded"
  using parse_returns_all [of n] by (blast dest: returns_withinD)

text \<open>
  Every run ends: with a value and a \<open>ParseData\<close>, or at a division that overflows.
\<close>

lemma runParser_returns:
  "(\<exists>v d. runParser str = Inr (v, d)) \<or> runParser str = Inl DivisionOverflow"
proof -
  have "5 * (length str - currentPosition initialData) + 5 \<le> 5 * length str + 5"
    by (simp add: initialData_def)
  from parseAddSubtract_returns [OF this]
  have "parseAddSubtract (5 * length str + 5) str initialData \<noteq> Inl DepthExceeded" .
  then show ?thesis
    by (cases "parseAddSubtract (5 * length str + 5) str initialData")
       (auto simp: runParser_def parseInputString_def Let_def intro: fault.exhaust)
qed

text \<open>
  The result does not depend on the depth bound: a larger bound gives the same result, and
  a result obtained with any bound is the result of \<open>runParser\<close>.
\<close>

lemma parseAddSubtract_more_fuel:
  "parseAddSubtract n str data = Inr r \<Longrightarrow> n \<le> m \<Longrightarrow> parseAddSubtract m str data = Inr r"
  using more_fuelD [OF parse_more_fuel_all [of n, THEN conjunct1], of m str data] by simp

lemma parseInputString_more_fuel:
  assumes "parseInputString n str data \<noteq> Inl DepthExceeded" and "n \<le> m"
  shows "parseInputString m str data = parseInputString n str data"
proof -
  from assms(1) have "parseAddSubtract n str data \<noteq> Inl DepthExceeded"
    by (auto simp: parseInputString_def)
  from more_fuelD [OF parse_more_fuel_all [of n, THEN conjunct1] assms(2) this]
  show ?thesis by (simp add: parseInputString_def)
qed

lemma runParser_not_DepthExceeded: "runParser str \<noteq> Inl DepthExceeded"
  using runParser_returns [of str] by auto

lemma runParser_any_bound:
  assumes "parseInputString n str initialData \<noteq> Inl DepthExceeded"
  shows "runParser str = parseInputString n str initialData"
proof (cases "n \<le> 5 * length str + 5")
  case True
  from parseInputString_more_fuel [OF assms True] show ?thesis by (simp add: runParser_def)
next
  case False
  then have "5 * length str + 5 \<le> n" by simp
  from parseInputString_more_fuel [OF _ this, of str initialData] runParser_not_DepthExceeded [of str]
  show ?thesis by (simp add: runParser_def)
qed

subsection \<open>The multiplication loop of the exponent level\<close>

lemma parseExponent_while_eq:
  "result2 \<noteq> 0 \<Longrightarrow> parseExponent_while result factor result2 = result * factor ^ (unat result2 - 1)"
proof (induction result factor result2 rule: parseExponent_while.induct)
  case (1 result factor result2)
  show ?case
  proof (cases "result2 - 1 = 0")
    case True
    then have "result2 = 1" by simp
    then show ?thesis by (subst parseExponent_while.simps) simp
  next
    case False
    from 1(2) have u: "unat (result2 - 1) = unat result2 - 1" by (simp add: unat_minus_one)
    from False have "0 < unat (result2 - 1)" by (simp add: unat_gt_0)
    then obtain k where k: "unat (result2 - 1) = Suc k" by (cases "unat (result2 - 1)") auto
    from False 1(1) have "parseExponent_while (result * factor) factor (result2 - 1)
        = result * factor * factor ^ (unat (result2 - 1) - 1)" by simp
    also have "\<dots> = result * factor ^ unat (result2 - 1)" by (simp add: k)
    finally show ?thesis using False u by (subst parseExponent_while.simps) simp
  qed
qed

lemma unat_positive_sint:
  assumes "0 < sint (w :: ValueType)"
  shows "unat w = nat (sint w)"
proof -
  have "sint w < 2 ^ 63" using sint_lt [of w] by simp
  then have "sint w < 2 ^ 64" by simp
  with assms have "take_bit 64 (sint w) = sint w" by (simp add: take_bit_int_eq_self)
  then have "uint w = sint w" using uint_sint [of w] by simp
  moreover have "unat w = nat (uint w)" by (rule unat_eq_nat_uint)
  ultimately show ?thesis by (simp only:)
qed

lemma parseExponent_while_power:
  assumes "0 < sint result2"
  shows "parseExponent_while result result result2 = result ^ nat (sint result2)"
proof -
  from assms have nz: "result2 \<noteq> 0" by auto
  from assms have "0 < nat (sint result2)" by simp
  then obtain k where k: "nat (sint result2) = Suc k" by (cases "nat (sint result2)") auto
  show ?thesis
    by (simp add: parseExponent_while_eq [OF nz] unat_positive_sint [OF assms] k)
qed


lemma sint_positive: "e \<noteq> 0 \<Longrightarrow> \<not> sint e < 0 \<Longrightarrow> 0 < sint (e :: ValueType)"
  using signed_eq_0_iff [of e, where ?'a = int] by (simp add: less_le)

text \<open>
  The power of \<open>ValueType\<close> is the power of the integers whenever that one is in the range
  of \<open>long long\<close>, that is, whenever the C multiplications do not overflow.
\<close>

lemma sint_power_in_range:
  assumes "- (2 ^ 63) \<le> sint b ^ k" and "sint b ^ k < 2 ^ 63"
  shows "sint (b ^ k :: ValueType) = sint b ^ k"
proof -
  have "b ^ k = word_of_int (sint b ^ k)" by simp
  then have "sint (b ^ k) = signed_take_bit 63 (sint b ^ k)"
    by (simp only: sint_sbintrunc') simp
  also have "\<dots> = sint b ^ k"
    using assms by (simp add: signed_take_bit_int_eq_self)
  finally show ?thesis .
qed

section \<open>Evaluation of the exponent\<close>

text \<open>
  Claim C3. When the base \<open>b\<close> (from \<open>parseUnaryMinus\<close>) and the exponent \<open>e\<close> (from
  the recursive call of \<open>parseExponent\<close> after the \<open>^\<close>) are both obtained with no
  error, \<open>parseExponent\<close> returns: 1 if \<open>e = 0\<close> (also for \<open>b = 0\<close>); the error
  \<open>ParseError_Div0\<close> if \<open>e < 0\<close> and \<open>b = 0\<close>; 0 if \<open>e < 0\<close> and \<open>b \<noteq> 0\<close>; and for
  \<open>e > 0\<close> the product of \<open>e\<close> copies of \<open>b\<close>, in the arithmetic of \<open>ValueType\<close>.
  So \<open>0^0\<close> and \<open>5^0\<close> evaluate to 1, \<open>2^-1\<close> evaluates to 0 and \<open>2^5^2\<close> to
  \<open>2^25\<close>.
\<close>

theorem exponent_evaluation:
  "(\<forall>n str data b data1 e data3.
      parseUnaryMinus n str data = Inr (b, data1) \<and> errorCode data1 = ParseError_None
      \<and> charAt str (skipWhitespace str (currentPosition data1)) = CHR ''^''
      \<and> parseExponent n str
            (data1\<lparr>currentPosition := Suc (skipWhitespace str (currentPosition data1))\<rparr>)
          = Inr (e, data3)
      \<and> errorCode data3 = ParseError_None
      \<longrightarrow> parseExponent (Suc n) str data =
            (if e = 0 then Inr (1, data3)
             else if sint e < 0 \<and> b = 0 then Inr (0, data3\<lparr>errorCode := ParseError_Div0\<rparr>)
             else if sint e < 0 then Inr (0, data3)
             else Inr (b ^ nat (sint e), data3)))
   \<and> runParser ''0^0'' = Inr (1, \<lparr>currentPosition = 3, errorCode = ParseError_None\<rparr>)
   \<and> runParser ''2^-1'' = Inr (0, \<lparr>currentPosition = 4, errorCode = ParseError_None\<rparr>)
   \<and> runParser ''5^0'' = Inr (1, \<lparr>currentPosition = 3, errorCode = ParseError_None\<rparr>)
   \<and> runParser ''2^5^2'' = Inr (2 ^ 25, \<lparr>currentPosition = 5, errorCode = ParseError_None\<rparr>)"
proof (intro conjI allI impI)
  fix n str data b data1 e data3
  assume "parseUnaryMinus n str data = Inr (b, data1) \<and> errorCode data1 = ParseError_None
      \<and> charAt str (skipWhitespace str (currentPosition data1)) = CHR ''^''
      \<and> parseExponent n str
            (data1\<lparr>currentPosition := Suc (skipWhitespace str (currentPosition data1))\<rparr>)
          = Inr (e, data3)
      \<and> errorCode data3 = ParseError_None"
  then show "parseExponent (Suc n) str data =
            (if e = 0 then Inr (1, data3)
             else if sint e < 0 \<and> b = 0 then Inr (0, data3\<lparr>errorCode := ParseError_Div0\<rparr>)
             else if sint e < 0 then Inr (0, data3)
             else Inr (b ^ nat (sint e), data3))"
    by (simp add: Let_def parseExponent_while_power sint_positive)
next
  show "runParser ''0^0'' = Inr (1, \<lparr>currentPosition = 3, errorCode = ParseError_None\<rparr>)"
    by code_simp
next
  show "runParser ''2^-1'' = Inr (0, \<lparr>currentPosition = 4, errorCode = ParseError_None\<rparr>)"
    by code_simp
next
  show "runParser ''5^0'' = Inr (1, \<lparr>currentPosition = 3, errorCode = ParseError_None\<rparr>)"
    by code_simp
next
  show "runParser ''2^5^2'' = Inr (2 ^ 25, \<lparr>currentPosition = 5, errorCode = ParseError_None\<rparr>)"
    by code_simp
qed

theorem exponent_evaluation_witness:
  "parseUnaryMinus 3 ''2^3'' initialData
     = Inr (2, \<lparr>currentPosition = 1, errorCode = ParseError_None\<rparr>)
   \<and> parseExponent 3 ''2^3'' \<lparr>currentPosition = 2, errorCode = ParseError_None\<rparr>
     = Inr (3, \<lparr>currentPosition = 3, errorCode = ParseError_None\<rparr>)
   \<and> parseExponent 4 ''2^3'' initialData
     = Inr (8, \<lparr>currentPosition = 3, errorCode = ParseError_None\<rparr>)"
proof -
  let ?d1 = "\<lparr>currentPosition = 1, errorCode = ParseError_None\<rparr>"
  let ?d3 = "\<lparr>currentPosition = 3, errorCode = ParseError_None\<rparr>"
  have h1: "parseUnaryMinus 3 ''2^3'' initialData = Inr (2, ?d1)" by code_simp
  have h2: "errorCode ?d1 = ParseError_None" by simp
  have h3: "charAt ''2^3'' (skipWhitespace ''2^3'' (currentPosition ?d1)) = CHR ''^''"
    by code_simp
  have h4: "parseExponent 3 ''2^3''
      (?d1\<lparr>currentPosition := Suc (skipWhitespace ''2^3'' (currentPosition ?d1))\<rparr>) = Inr (3, ?d3)"
    by code_simp
  have h4': "parseExponent 3 ''2^3'' \<lparr>currentPosition = 2, errorCode = ParseError_None\<rparr>
      = Inr (3, ?d3)"
    by code_simp
  have h5: "errorCode ?d3 = ParseError_None" by simp
  from exponent_evaluation
  have "parseExponent (Suc 3) ''2^3'' initialData =
      (if (3 :: ValueType) = 0 then Inr (1, ?d3)
       else if sint (3 :: ValueType) < 0 \<and> (2 :: ValueType) = 0
         then Inr (0, ?d3\<lparr>errorCode := ParseError_Div0\<rparr>)
       else if sint (3 :: ValueType) < 0 then Inr (0, ?d3)
       else Inr (2 ^ nat (sint (3 :: ValueType)), ?d3))"
    using h1 h2 h3 h4 h5 by blast
  then have "parseExponent 4 ''2^3'' initialData = Inr (8, ?d3)" by simp
  with h1 h4' show ?thesis by simp
qed

section \<open>Division by zero\<close>

text \<open>
  Claim C6. In one turn of the loop of \<open>parseMulDiv\<close>, with operator \<open>*\<close> or \<open>/\<close> and
  a right operand \<open>r2\<close> obtained with no error: the level sets \<open>ParseError_Div0\<close> and
  leaves the loop (returning 0) if the operator is \<open>/\<close> and \<open>r2 = 0\<close>; in every other case
  it sets no error: the loop goes on with the product, or with the quotient truncated
  towards zero (the one division with no result, \<open>LLONG_MIN / -1\<close>, set apart). Parsing
  \<open>5/0\<close> fails with \<open>ParseError_Div0\<close>, and so does \<open>0^-1\<close>, through the check of the
  exponent level (zero base, negative exponent).
\<close>

theorem division_by_zero:
  "(\<forall>n str result data r2 data2.
      (charAt str (skipWhitespace str (currentPosition data)) = CHR ''*''
         \<or> charAt str (skipWhitespace str (currentPosition data)) = CHR ''/'')
      \<and> parseExponent n str
            (data\<lparr>currentPosition := Suc (skipWhitespace str (currentPosition data))\<rparr>)
          = Inr (r2, data2)
      \<and> errorCode data2 = ParseError_None
      \<longrightarrow> parseMulDiv_loop (Suc n) str result data =
            (if charAt str (skipWhitespace str (currentPosition data)) = CHR ''/'' \<and> r2 = 0
             then Inr (0, data2\<lparr>errorCode := ParseError_Div0\<rparr>)
             else if charAt str (skipWhitespace str (currentPosition data)) = CHR ''*''
             then parseMulDiv_loop n str (result * r2) data2
             else if sint result = LLONG_MIN \<and> sint r2 = - 1
             then Inl DivisionOverflow
             else parseMulDiv_loop n str (word_of_int (sint result sdiv sint r2)) data2))
   \<and> runParser ''5/0'' = Inr (0, \<lparr>currentPosition = 3, errorCode = ParseError_Div0\<rparr>)
   \<and> runParser ''0^-1'' = Inr (0, \<lparr>currentPosition = 4, errorCode = ParseError_Div0\<rparr>)"
proof (intro conjI allI impI)
  fix n str result data r2 data2
  assume "(charAt str (skipWhitespace str (currentPosition data)) = CHR ''*''
         \<or> charAt str (skipWhitespace str (currentPosition data)) = CHR ''/'')
      \<and> parseExponent n str
            (data\<lparr>currentPosition := Suc (skipWhitespace str (currentPosition data))\<rparr>)
          = Inr (r2, data2)
      \<and> errorCode data2 = ParseError_None"
  then show "parseMulDiv_loop (Suc n) str result data =
            (if charAt str (skipWhitespace str (currentPosition data)) = CHR ''/'' \<and> r2 = 0
             then Inr (0, data2\<lparr>errorCode := ParseError_Div0\<rparr>)
             else if charAt str (skipWhitespace str (currentPosition data)) = CHR ''*''
             then parseMulDiv_loop n str (result * r2) data2
             else if sint result = LLONG_MIN \<and> sint r2 = - 1
             then Inl DivisionOverflow
             else parseMulDiv_loop n str (word_of_int (sint result sdiv sint r2)) data2)"
    by (auto simp: Let_def divide_ValueType_def)
next
  show "runParser ''5/0'' = Inr (0, \<lparr>currentPosition = 3, errorCode = ParseError_Div0\<rparr>)"
    by code_simp
next
  show "runParser ''0^-1'' = Inr (0, \<lparr>currentPosition = 4, errorCode = ParseError_Div0\<rparr>)"
    by code_simp
qed

text \<open>
  The theorem at the input \<open>5/0\<close>, where the loop starts with \<open>result = 5\<close> at offset 1,
  and at the input \<open>7/2\<close>, where the loop goes on with the quotient 3.
\<close>

theorem division_by_zero_witness:
  "parseExponent 4 ''5/0'' \<lparr>currentPosition = 2, errorCode = ParseError_None\<rparr>
     = Inr (0, \<lparr>currentPosition = 3, errorCode = ParseError_None\<rparr>)
   \<and> parseMulDiv_loop 5 ''5/0'' 5 \<lparr>currentPosition = 1, errorCode = ParseError_None\<rparr>
     = Inr (0, \<lparr>currentPosition = 3, errorCode = ParseError_Div0\<rparr>)
   \<and> parseExponent 4 ''7/2'' \<lparr>currentPosition = 2, errorCode = ParseError_None\<rparr>
     = Inr (2, \<lparr>currentPosition = 3, errorCode = ParseError_None\<rparr>)
   \<and> parseMulDiv_loop 5 ''7/2'' 7 \<lparr>currentPosition = 1, errorCode = ParseError_None\<rparr>
     = Inr (3, \<lparr>currentPosition = 3, errorCode = ParseError_None\<rparr>)"
proof -
  let ?d = "\<lparr>currentPosition = 1, errorCode = ParseError_None\<rparr>"
  let ?d2 = "\<lparr>currentPosition = 3, errorCode = ParseError_None\<rparr>"
  have c: "charAt ''5/0'' (skipWhitespace ''5/0'' (currentPosition ?d)) = CHR ''/''"
    by code_simp
  have h1: "charAt ''5/0'' (skipWhitespace ''5/0'' (currentPosition ?d)) = CHR ''*''
      \<or> charAt ''5/0'' (skipWhitespace ''5/0'' (currentPosition ?d)) = CHR ''/''"
    using c by simp
  have h2: "parseExponent 4 ''5/0''
      (?d\<lparr>currentPosition := Suc (skipWhitespace ''5/0'' (currentPosition ?d))\<rparr>) = Inr (0, ?d2)"
    by code_simp
  have h2': "parseExponent 4 ''5/0'' \<lparr>currentPosition = 2, errorCode = ParseError_None\<rparr>
      = Inr (0, ?d2)"
    by code_simp
  have h3: "errorCode ?d2 = ParseError_None" by simp
  note dz = division_by_zero [THEN conjunct1, rule_format]
  have "parseMulDiv_loop (Suc 4) ''5/0'' 5 ?d =
      (if charAt ''5/0'' (skipWhitespace ''5/0'' (currentPosition ?d)) = CHR ''/'' \<and> (0 :: ValueType) = 0
       then Inr (0, ?d2\<lparr>errorCode := ParseError_Div0\<rparr>)
       else if charAt ''5/0'' (skipWhitespace ''5/0'' (currentPosition ?d)) = CHR ''*''
       then parseMulDiv_loop 4 ''5/0'' (5 * 0) ?d2
       else if sint (5 :: ValueType) = LLONG_MIN \<and> sint (0 :: ValueType) = - 1
       then Inl DivisionOverflow
       else parseMulDiv_loop 4 ''5/0'' (word_of_int (sint (5 :: ValueType) sdiv sint (0 :: ValueType))) ?d2)"
    by (rule dz [OF conjI [OF h1 conjI [OF h2 h3]]])
  then have w1: "parseMulDiv_loop 5 ''5/0'' 5 ?d = Inr (0, ?d2\<lparr>errorCode := ParseError_Div0\<rparr>)"
    by (simp only: c if_True simp_thms) simp
  have c7: "charAt ''7/2'' (skipWhitespace ''7/2'' (currentPosition ?d)) = CHR ''/''"
    by code_simp
  have g1: "charAt ''7/2'' (skipWhitespace ''7/2'' (currentPosition ?d)) = CHR ''*''
      \<or> charAt ''7/2'' (skipWhitespace ''7/2'' (currentPosition ?d)) = CHR ''/''"
    using c7 by simp
  have g2: "parseExponent 4 ''7/2''
      (?d\<lparr>currentPosition := Suc (skipWhitespace ''7/2'' (currentPosition ?d))\<rparr>) = Inr (2, ?d2)"
    by code_simp
  have g2': "parseExponent 4 ''7/2'' \<lparr>currentPosition = 2, errorCode = ParseError_None\<rparr>
      = Inr (2, ?d2)"
    by code_simp
  have q: "(word_of_int (sint (7 :: ValueType) sdiv sint (2 :: ValueType)) :: ValueType) = 3"
    by (simp add: signed_divide_int_def)
  have l: "parseMulDiv_loop 4 ''7/2'' 3 ?d2 = Inr (3, ?d2)" by code_simp
  have "parseMulDiv_loop (Suc 4) ''7/2'' 7 ?d =
      (if charAt ''7/2'' (skipWhitespace ''7/2'' (currentPosition ?d)) = CHR ''/'' \<and> (2 :: ValueType) = 0
       then Inr (0, ?d2\<lparr>errorCode := ParseError_Div0\<rparr>)
       else if charAt ''7/2'' (skipWhitespace ''7/2'' (currentPosition ?d)) = CHR ''*''
       then parseMulDiv_loop 4 ''7/2'' (7 * 2) ?d2
       else if sint (7 :: ValueType) = LLONG_MIN \<and> sint (2 :: ValueType) = - 1
       then Inl DivisionOverflow
       else parseMulDiv_loop 4 ''7/2'' (word_of_int (sint (7 :: ValueType) sdiv sint (2 :: ValueType))) ?d2)"
    by (rule dz [OF conjI [OF g1 conjI [OF g2 h3]]])
  then have w2: "parseMulDiv_loop 5 ''7/2'' 7 ?d = Inr (3, ?d2)"
    by (simp only: c7 q l) (simp add: LLONG_MIN_def)
  from h2' w1 g2' w2 show ?thesis by simp
qed

section \<open>The driver and the end of the input\<close>

lemma charAt_NUL_end:
  assumes "charAt str p = CHR 0x00" and "CHR 0x00 \<notin> set str"
  shows "length str \<le> p"
proof (rule ccontr)
  assume "\<not> length str \<le> p"
  then have p: "p < length str" by simp
  then have "str ! p \<in> set str" by (rule nth_mem)
  moreover from p assms(1) have "str ! p = CHR 0x00" by (simp add: charAt_def)
  ultimately show False using assms(2) by simp
qed

text \<open>
  Claim C7. When \<open>parseAddSubtract\<close> returns with no error, \<open>parseInputString\<close> skips
  white space and looks at the character under the cursor: if it is not the terminating
  NUL, the error becomes \<open>ParseError_Syntax\<close> with the cursor on that character; else there
  is no error. Parsing \<open>3 4\<close> fails with \<open>ParseError_Syntax\<close> at offset 2, the offset of
  the second literal. On a run that succeeds the cursor is on the terminating NUL: for an
  input with no NUL inside, the cursor is the length of the input, so all of it has been
  consumed.
\<close>

theorem driver_requires_end_of_input:
  "(\<forall>n str data result data1.
      parseAddSubtract n str data = Inr (result, data1) \<and> errorCode data1 = ParseError_None
      \<longrightarrow> parseInputString n str data =
            Inr (result,
              data1\<lparr>currentPosition := skipWhitespace str (currentPosition data1),
                     errorCode :=
                       (if charAt str (skipWhitespace str (currentPosition data1)) \<noteq> CHR 0x00
                        then ParseError_Syntax else ParseError_None)\<rparr>))
   \<and> runParser ''3 4'' = Inr (3, \<lparr>currentPosition = 2, errorCode = ParseError_Syntax\<rparr>)
   \<and> (\<forall>str v d.
        runParser str = Inr (v, d) \<and> errorCode d = ParseError_None
        \<longrightarrow> charAt str (currentPosition d) = CHR 0x00
            \<and> currentPosition d \<le> length str
            \<and> (CHR 0x00 \<notin> set str \<longrightarrow> currentPosition d = length str))"
proof (intro conjI allI impI)
  fix n str data result data1
  assume "parseAddSubtract n str data = Inr (result, data1) \<and> errorCode data1 = ParseError_None"
  then show "parseInputString n str data =
            Inr (result,
              data1\<lparr>currentPosition := skipWhitespace str (currentPosition data1),
                     errorCode :=
                       (if charAt str (skipWhitespace str (currentPosition data1)) \<noteq> CHR 0x00
                        then ParseError_Syntax else ParseError_None)\<rparr>)"
    by (cases data1) (simp add: parseInputString_def Let_def)
next
  show "runParser ''3 4'' = Inr (3, \<lparr>currentPosition = 2, errorCode = ParseError_Syntax\<rparr>)"
    by code_simp
next
  fix str v d
  assume a: "runParser str = Inr (v, d) \<and> errorCode d = ParseError_None"
  then obtain r data1 where
    as: "parseAddSubtract (5 * length str + 5) str initialData = Inr (r, data1)"
    by (auto simp: runParser_def parseInputString_def split: sum.splits)
  let ?p = "skipWhitespace str (currentPosition data1)"
  from a as have e1: "errorCode data1 = ParseError_None"
    by (auto simp: runParser_def parseInputString_def Let_def split: if_splits)
  from a as e1 have d: "d = data1\<lparr>currentPosition := ?p\<rparr>" and v: "v = r"
    and nul: "charAt str ?p = CHR 0x00"
    by (auto simp: runParser_def parseInputString_def Let_def split: if_splits)
  have "currentPosition data1 \<le> length str"
    using parseAddSubtract_within_input [OF as] by (simp add: initialData_def)
  then have le: "?p \<le> length str" by (rule skipWhitespace_le_length)
  show "charAt str (currentPosition d) = CHR 0x00" using nul d by simp
  show "currentPosition d \<le> length str" using le d by simp
  show "currentPosition d = length str" if "CHR 0x00 \<notin> set str"
    using charAt_NUL_end [OF nul that] le d by simp
qed

text \<open>The theorem at the inputs \<open>3 4\<close> (first part) and \<open>1+2\<close> followed by a space (last part).\<close>

theorem driver_requires_end_of_input_witness:
  "parseAddSubtract 20 ''3 4'' initialData
     = Inr (3, \<lparr>currentPosition = 2, errorCode = ParseError_None\<rparr>)
   \<and> parseInputString 20 ''3 4'' initialData
     = Inr (3, \<lparr>currentPosition = 2, errorCode = ParseError_Syntax\<rparr>)
   \<and> runParser ''1+2 '' = Inr (3, \<lparr>currentPosition = 4, errorCode = ParseError_None\<rparr>)
   \<and> currentPosition \<lparr>currentPosition = 4, errorCode = ParseError_None\<rparr> = length ''1+2 ''"
proof -
  let ?d1 = "\<lparr>currentPosition = 2, errorCode = ParseError_None\<rparr>"
  let ?d = "\<lparr>currentPosition = 4, errorCode = ParseError_None\<rparr>"
  have h1: "parseAddSubtract 20 ''3 4'' initialData = Inr (3, ?d1)" by code_simp
  have h2: "errorCode ?d1 = ParseError_None" by simp
  have s: "skipWhitespace ''3 4'' (currentPosition ?d1) = 2" by code_simp
  have c: "charAt ''3 4'' 2 \<noteq> CHR 0x00" by code_simp
  from driver_requires_end_of_input h1 h2
  have "parseInputString 20 ''3 4'' initialData =
      Inr (3, ?d1\<lparr>currentPosition := skipWhitespace ''3 4'' (currentPosition ?d1),
                    errorCode :=
                      (if charAt ''3 4'' (skipWhitespace ''3 4'' (currentPosition ?d1)) \<noteq> CHR 0x00
                       then ParseError_Syntax else ParseError_None)\<rparr>)"
    by blast
  then have w1: "parseInputString 20 ''3 4'' initialData
      = Inr (3, \<lparr>currentPosition = 2, errorCode = ParseError_Syntax\<rparr>)"
    by (simp only: s c if_True) simp
  have h3: "runParser ''1+2 '' = Inr (3, ?d)" by code_simp
  have h4: "errorCode ?d = ParseError_None" by simp
  have h5: "CHR 0x00 \<notin> set ''1+2 ''" by simp
  from driver_requires_end_of_input h3 h4
  have "CHR 0x00 \<notin> set ''1+2 '' \<longrightarrow> currentPosition ?d = length ''1+2 ''"
    by blast
  with h5 have w2: "currentPosition ?d = length ''1+2 ''" by blast
  from h1 w1 h3 w2 show ?thesis by blast
qed

section \<open>What the levels do when a call below them has failed\<close>

text \<open>
  Claim C2, as the code has it. When a call made by \<open>parseAddSubtract\<close>, \<open>parseMulDiv\<close> or
  \<open>parseExponent\<close> (before the loop or the operator, or for the right operand) returns
  with the error set, the level returns at once: the \<open>ParseData\<close> is the one the call left,
  no operator is applied, and the value returned is the left operand held by the level
  (\<open>parseAddSubtract\<close>, \<open>parseExponent\<close>) or 0 (\<open>parseMulDiv\<close>). \<open>parseUnaryMinus\<close> also
  leaves the \<open>ParseData\<close> as \<open>parseParentheses\<close> returned it, but it has no test of the
  error: it negates the value whenever it has consumed a \<open>-\<close>.
\<close>

theorem error_propagation:
  "(\<forall>n str data r d1.
      parseMulDiv n str data = Inr (r, d1) \<and> errorCode d1 \<noteq> ParseError_None
      \<longrightarrow> parseAddSubtract (Suc n) str data = Inr (r, d1))
   \<and> (\<forall>n str result data r2 d2.
      (charAt str (skipWhitespace str (currentPosition data)) = CHR ''+''
         \<or> charAt str (skipWhitespace str (currentPosition data)) = CHR ''-'')
      \<and> parseMulDiv n str
            (data\<lparr>currentPosition := Suc (skipWhitespace str (currentPosition data))\<rparr>)
          = Inr (r2, d2)
      \<and> errorCode d2 \<noteq> ParseError_None
      \<longrightarrow> parseAddSubtract_loop (Suc n) str result data = Inr (result, d2))
   \<and> (\<forall>n str data r d1.
      parseExponent n str data = Inr (r, d1) \<and> errorCode d1 \<noteq> ParseError_None
      \<longrightarrow> parseMulDiv (Suc n) str data = Inr (0, d1))
   \<and> (\<forall>n str result data r2 d2.
      (charAt str (skipWhitespace str (currentPosition data)) = CHR ''*''
         \<or> charAt str (skipWhitespace str (currentPosition data)) = CHR ''/'')
      \<and> parseExponent n str
            (data\<lparr>currentPosition := Suc (skipWhitespace str (currentPosition data))\<rparr>)
          = Inr (r2, d2)
      \<and> errorCode d2 \<noteq> ParseError_None
      \<longrightarrow> parseMulDiv_loop (Suc n) str result data = Inr (0, d2))
   \<and> (\<forall>n str data r d1.
      parseUnaryMinus n str data = Inr (r, d1) \<and> errorCode d1 \<noteq> ParseError_None
      \<longrightarrow> parseExponent (Suc n) str data = Inr (r, d1))
   \<and> (\<forall>n str data r d1 r2 d3.
      parseUnaryMinus n str data = Inr (r, d1) \<and> errorCode d1 = ParseError_None
      \<and> charAt str (skipWhitespace str (currentPosition d1)) = CHR ''^''
      \<and> parseExponent n str
            (d1\<lparr>currentPosition := Suc (skipWhitespace str (currentPosition d1))\<rparr>)
          = Inr (r2, d3)
      \<and> errorCode d3 \<noteq> ParseError_None
      \<longrightarrow> parseExponent (Suc n) str data = Inr (r, d3))
   \<and> (\<forall>n str data r d3.
      parseParentheses n str
          (if charAt str (skipWhitespace str (currentPosition data)) = CHR ''-''
           then data\<lparr>currentPosition := Suc (skipWhitespace str (currentPosition data))\<rparr>
           else data\<lparr>currentPosition := skipWhitespace str (currentPosition data)\<rparr>)
        = Inr (r, d3)
      \<longrightarrow> parseUnaryMinus (Suc n) str data =
            Inr (if charAt str (skipWhitespace str (currentPosition data)) = CHR ''-''
                  then - r else r, d3))"
proof -
  have 1: "parseAddSubtract (Suc n) str data = Inr (r, d1)"
    if "parseMulDiv n str data = Inr (r, d1) \<and> errorCode d1 \<noteq> ParseError_None"
    for n str data r d1
    using that by simp
  have 2: "parseAddSubtract_loop (Suc n) str result data = Inr (result, d2)"
    if "(charAt str (skipWhitespace str (currentPosition data)) = CHR ''+''
         \<or> charAt str (skipWhitespace str (currentPosition data)) = CHR ''-'')
      \<and> parseMulDiv n str
            (data\<lparr>currentPosition := Suc (skipWhitespace str (currentPosition data))\<rparr>)
          = Inr (r2, d2)
      \<and> errorCode d2 \<noteq> ParseError_None"
    for n str result data r2 d2
    using that by (auto simp: Let_def)
  have 3: "parseMulDiv (Suc n) str data = Inr (0, d1)"
    if "parseExponent n str data = Inr (r, d1) \<and> errorCode d1 \<noteq> ParseError_None"
    for n str data r d1
    using that by simp
  have 4: "parseMulDiv_loop (Suc n) str result data = Inr (0, d2)"
    if "(charAt str (skipWhitespace str (currentPosition data)) = CHR ''*''
         \<or> charAt str (skipWhitespace str (currentPosition data)) = CHR ''/'')
      \<and> parseExponent n str
            (data\<lparr>currentPosition := Suc (skipWhitespace str (currentPosition data))\<rparr>)
          = Inr (r2, d2)
      \<and> errorCode d2 \<noteq> ParseError_None"
    for n str result data r2 d2
    using that by (auto simp: Let_def)
  have 5: "parseExponent (Suc n) str data = Inr (r, d1)"
    if "parseUnaryMinus n str data = Inr (r, d1) \<and> errorCode d1 \<noteq> ParseError_None"
    for n str data r d1
    using that by simp
  have 6: "parseExponent (Suc n) str data = Inr (r, d3)"
    if "parseUnaryMinus n str data = Inr (r, d1) \<and> errorCode d1 = ParseError_None
      \<and> charAt str (skipWhitespace str (currentPosition d1)) = CHR ''^''
      \<and> parseExponent n str
            (d1\<lparr>currentPosition := Suc (skipWhitespace str (currentPosition d1))\<rparr>)
          = Inr (r2, d3)
      \<and> errorCode d3 \<noteq> ParseError_None"
    for n str data r d1 r2 d3
    using that by (simp add: Let_def)
  have 7: "parseUnaryMinus (Suc n) str data =
            Inr (if charAt str (skipWhitespace str (currentPosition data)) = CHR ''-''
                  then - r else r, d3)"
    if "parseParentheses n str
          (if charAt str (skipWhitespace str (currentPosition data)) = CHR ''-''
           then data\<lparr>currentPosition := Suc (skipWhitespace str (currentPosition data))\<rparr>
           else data\<lparr>currentPosition := skipWhitespace str (currentPosition data)\<rparr>)
        = Inr (r, d3)"
    for n str data r d3
    using that by (auto simp: Let_def split: if_splits)
  show ?thesis
    by (intro conjI allI impI; (rule 1 2 3 4 5 6 7, assumption))
qed

text \<open>
  The theorem at concrete inputs: \<open>-(5+)\<close> through \<open>parseUnaryMinus\<close>, \<open>parseExponent\<close>,
  \<open>parseMulDiv\<close> and \<open>parseAddSubtract\<close>; \<open>1+*\<close> and \<open>2**\<close> in the two loops; \<open>2^*\<close> for
  the right operand of \<open>^\<close>.
\<close>

theorem error_propagation_witness:
  "parseUnaryMinus 11 ''-(5+)'' initialData
     = Inr (- 5, \<lparr>currentPosition = 5, errorCode = ParseError_Syntax\<rparr>)
   \<and> parseExponent 12 ''-(5+)'' initialData
     = Inr (- 5, \<lparr>currentPosition = 5, errorCode = ParseError_Syntax\<rparr>)
   \<and> parseMulDiv 13 ''-(5+)'' initialData
     = Inr (0, \<lparr>currentPosition = 5, errorCode = ParseError_Syntax\<rparr>)
   \<and> parseAddSubtract 14 ''-(5+)'' initialData
     = Inr (0, \<lparr>currentPosition = 5, errorCode = ParseError_Syntax\<rparr>)
   \<and> parseAddSubtract_loop 6 ''1+*'' 1 \<lparr>currentPosition = 1, errorCode = ParseError_None\<rparr>
     = Inr (1, \<lparr>currentPosition = 2, errorCode = ParseError_Syntax\<rparr>)
   \<and> parseMulDiv_loop 5 ''2**'' 2 \<lparr>currentPosition = 1, errorCode = ParseError_None\<rparr>
     = Inr (0, \<lparr>currentPosition = 2, errorCode = ParseError_Syntax\<rparr>)
   \<and> parseExponent 4 ''2^*'' initialData
     = Inr (2, \<lparr>currentPosition = 2, errorCode = ParseError_Syntax\<rparr>)"
proof -
  let ?e = "\<lparr>currentPosition = 5, errorCode = ParseError_Syntax\<rparr>"
  let ?e2 = "\<lparr>currentPosition = 2, errorCode = ParseError_Syntax\<rparr>"
  let ?d1 = "\<lparr>currentPosition = 1, errorCode = ParseError_None\<rparr>"
  note p1 = error_propagation [THEN conjunct1, rule_format]
  note p2 = error_propagation [THEN conjunct2, THEN conjunct1, rule_format]
  note p3 = error_propagation [THEN conjunct2, THEN conjunct2, THEN conjunct1, rule_format]
  note p4 = error_propagation [THEN conjunct2, THEN conjunct2, THEN conjunct2, THEN conjunct1,
    rule_format]
  note p5 = error_propagation [THEN conjunct2, THEN conjunct2, THEN conjunct2, THEN conjunct2,
    THEN conjunct1, rule_format]
  note p6 = error_propagation [THEN conjunct2, THEN conjunct2, THEN conjunct2, THEN conjunct2,
    THEN conjunct2, THEN conjunct1, rule_format]
  note p7 = error_propagation [THEN conjunct2, THEN conjunct2, THEN conjunct2, THEN conjunct2,
    THEN conjunct2, THEN conjunct2, rule_format]
  have ne: "errorCode ?e \<noteq> ParseError_None" "errorCode ?e2 \<noteq> ParseError_None" by simp_all
  have c: "charAt ''-(5+)'' (skipWhitespace ''-(5+)'' (currentPosition initialData)) = CHR ''-''"
    by code_simp
  have "parseParentheses 10 ''-(5+)''
      (if charAt ''-(5+)'' (skipWhitespace ''-(5+)'' (currentPosition initialData)) = CHR ''-''
       then initialData\<lparr>currentPosition :=
              Suc (skipWhitespace ''-(5+)'' (currentPosition initialData))\<rparr>
       else initialData\<lparr>currentPosition :=
              skipWhitespace ''-(5+)'' (currentPosition initialData)\<rparr>) = Inr (5, ?e)"
    by code_simp
  then have "parseUnaryMinus (Suc 10) ''-(5+)'' initialData =
      Inr (if charAt ''-(5+)'' (skipWhitespace ''-(5+)'' (currentPosition initialData)) = CHR ''-''
            then - 5 else 5, ?e)"
    by (rule p7)
  then have u: "parseUnaryMinus 11 ''-(5+)'' initialData = Inr (- 5, ?e)"
    by (simp only: c if_True) simp
  from u ne(1) have "parseExponent (Suc 11) ''-(5+)'' initialData = Inr (- 5, ?e)"
    by (intro p5 conjI)
  then have x: "parseExponent 12 ''-(5+)'' initialData = Inr (- 5, ?e)" by simp
  from x ne(1) have "parseMulDiv (Suc 12) ''-(5+)'' initialData = Inr (0, ?e)"
    by (intro p3 conjI)
  then have m: "parseMulDiv 13 ''-(5+)'' initialData = Inr (0, ?e)" by simp
  from m ne(1) have "parseAddSubtract (Suc 13) ''-(5+)'' initialData = Inr (0, ?e)"
    by (intro p1 conjI)
  then have a: "parseAddSubtract 14 ''-(5+)'' initialData = Inr (0, ?e)" by simp
  have a1: "charAt ''1+*'' (skipWhitespace ''1+*'' (currentPosition ?d1)) = CHR ''+''
      \<or> charAt ''1+*'' (skipWhitespace ''1+*'' (currentPosition ?d1)) = CHR ''-''"
    by code_simp
  have a2: "parseMulDiv 5 ''1+*''
      (?d1\<lparr>currentPosition := Suc (skipWhitespace ''1+*'' (currentPosition ?d1))\<rparr>) = Inr (0, ?e2)"
    by code_simp
  have "parseAddSubtract_loop (Suc 5) ''1+*'' 1 ?d1 = Inr (1, ?e2)"
    by (rule p2 [OF conjI [OF a1 conjI [OF a2 ne(2)]]])
  then have al: "parseAddSubtract_loop 6 ''1+*'' 1 ?d1 = Inr (1, ?e2)" by simp
  have m1: "charAt ''2**'' (skipWhitespace ''2**'' (currentPosition ?d1)) = CHR ''*''
      \<or> charAt ''2**'' (skipWhitespace ''2**'' (currentPosition ?d1)) = CHR ''/''"
    by code_simp
  have m2: "parseExponent 4 ''2**''
      (?d1\<lparr>currentPosition := Suc (skipWhitespace ''2**'' (currentPosition ?d1))\<rparr>) = Inr (0, ?e2)"
    by code_simp
  have "parseMulDiv_loop (Suc 4) ''2**'' 2 ?d1 = Inr (0, ?e2)"
    by (rule p4 [OF conjI [OF m1 conjI [OF m2 ne(2)]]])
  then have ml: "parseMulDiv_loop 5 ''2**'' 2 ?d1 = Inr (0, ?e2)" by simp
  have e1: "parseUnaryMinus 3 ''2^*'' initialData = Inr (2, ?d1)" by code_simp
  have e2: "errorCode ?d1 = ParseError_None" by simp
  have e3: "charAt ''2^*'' (skipWhitespace ''2^*'' (currentPosition ?d1)) = CHR ''^''"
    by code_simp
  have e4: "parseExponent 3 ''2^*''
      (?d1\<lparr>currentPosition := Suc (skipWhitespace ''2^*'' (currentPosition ?d1))\<rparr>) = Inr (0, ?e2)"
    by code_simp
  have "parseExponent (Suc 3) ''2^*'' initialData = Inr (2, ?e2)"
    by (rule p6 [OF conjI [OF e1 conjI [OF e2 conjI [OF e3 conjI [OF e4 ne(2)]]]]])
  then have x2: "parseExponent 4 ''2^*'' initialData = Inr (2, ?e2)" by simp
  from u x m a al ml x2 show ?thesis by (intro conjI)
qed

text \<open>
  Claim C2 as the specification states it says that \<open>parseUnaryMinus\<close> negates only if no
  error occurred below it. On the input \<open>-(5+)\<close> the call of \<open>parseParentheses\<close> returns
  the value 5 with \<open>ParseError_Syntax\<close> set, and \<open>parseUnaryMinus\<close> returns \<open>-5\<close>: the value
  has been negated although the error is set.
\<close>

theorem unary_minus_negates_after_error:
  "parseParentheses 10 ''-(5+)'' \<lparr>currentPosition = 1, errorCode = ParseError_None\<rparr>
     = Inr (5, \<lparr>currentPosition = 5, errorCode = ParseError_Syntax\<rparr>)
   \<and> parseUnaryMinus 11 ''-(5+)'' initialData
     = Inr (- 5, \<lparr>currentPosition = 5, errorCode = ParseError_Syntax\<rparr>)"
  by code_simp

section \<open>The error that parseParentheses does not test\<close>

text \<open>
  Claim C1 says that once an error is recorded, nothing changes the error code or moves
  the cursor. \<open>parseParentheses\<close> does not test \<open>errorCode\<close> after its call of
  \<open>parseAddSubtract\<close>, as the other levels do after their calls. On \<open>(1/0\<close> the call
  returns with \<open>ParseError_Div0\<close> at offset 4, and the run ends with
  \<open>ParseError_NoClosingParenthesis\<close>: the error code has been replaced. On \<open>(1/0)\<close> the
  call returns with \<open>ParseError_Div0\<close> at offset 4 and the run ends with the cursor at
  offset 5: the cursor has moved after the error. On \<open>(1+*2)\<close> the call returns with
  \<open>ParseError_Syntax\<close> at offset 3 and the run ends with
  \<open>ParseError_NoClosingParenthesis\<close>. \<open>printErrorMsg\<close> prints the caret and the message
  from the final \<open>ParseData\<close>: \<open>Expecting )\<close> for \<open>(1/0\<close>, and a caret under offset 5
  for \<open>(1/0)\<close>.
\<close>

theorem parseParentheses_overwrites_error:
  "parseAddSubtract 25 ''(1/0'' \<lparr>currentPosition = 1, errorCode = ParseError_None\<rparr>
     = Inr (0, \<lparr>currentPosition = 4, errorCode = ParseError_Div0\<rparr>)
   \<and> runParser ''(1/0''
     = Inr (0, \<lparr>currentPosition = 4, errorCode = ParseError_NoClosingParenthesis\<rparr>)
   \<and> printErrorMsg ''(1/0''
        \<lparr>currentPosition = 4, errorCode = ParseError_NoClosingParenthesis\<rparr>
     = Some (''(1/0'' @ [CHR 0x0A] @ ''    ^'' @ [CHR 0x0A] @ ''Expecting )'' @ [CHR 0x0A])
   \<and> parseAddSubtract 30 ''(1/0)'' \<lparr>currentPosition = 1, errorCode = ParseError_None\<rparr>
     = Inr (0, \<lparr>currentPosition = 4, errorCode = ParseError_Div0\<rparr>)
   \<and> runParser ''(1/0)'' = Inr (0, \<lparr>currentPosition = 5, errorCode = ParseError_Div0\<rparr>)
   \<and> printErrorMsg ''(1/0)'' \<lparr>currentPosition = 5, errorCode = ParseError_Div0\<rparr>
     = Some (''(1/0)'' @ [CHR 0x0A] @ ''     ^'' @ [CHR 0x0A] @ ''Division by 0'' @ [CHR 0x0A])
   \<and> parseAddSubtract 35 ''(1+*2)'' \<lparr>currentPosition = 1, errorCode = ParseError_None\<rparr>
     = Inr (1, \<lparr>currentPosition = 3, errorCode = ParseError_Syntax\<rparr>)
   \<and> runParser ''(1+*2)''
     = Inr (0, \<lparr>currentPosition = 3, errorCode = ParseError_NoClosingParenthesis\<rparr>)"
  by code_simp

section \<open>Associativity, precedence and signs on concrete inputs\<close>

text \<open>
  Claim C4. The add/subtract and multiply/divide levels fold their operators from left to
  right, the exponent level groups from right to left. Parsing \<open>1-2+3\<close> succeeds with
  value \<open>2 = (1-2)+3\<close> (and not \<open>-4\<close>) and \<open>7-4-2\<close> with \<open>1 = (7-4)-2\<close> (not 5); parsing
  \<open>8/4/2\<close> succeeds with \<open>1 = (8/4)/2\<close> (not 4) and \<open>8/4*2\<close> with \<open>4 = (8/4)*2\<close> (not 1);
  parsing \<open>2^3^2\<close> succeeds with value \<open>512 = 2^(3^2)\<close> (and not \<open>64\<close>). All runs end with
  no error and the cursor at the end of the input.
\<close>

theorem associativity_examples:
  "runParser ''1-2+3'' = Inr (2, \<lparr>currentPosition = 5, errorCode = ParseError_None\<rparr>)
   \<and> (2 :: ValueType) \<noteq> - 4
   \<and> runParser ''7-4-2'' = Inr (1, \<lparr>currentPosition = 5, errorCode = ParseError_None\<rparr>)
   \<and> (1 :: ValueType) \<noteq> 5
   \<and> runParser ''8/4/2'' = Inr (1, \<lparr>currentPosition = 5, errorCode = ParseError_None\<rparr>)
   \<and> (1 :: ValueType) \<noteq> 4
   \<and> runParser ''8/4*2'' = Inr (4, \<lparr>currentPosition = 5, errorCode = ParseError_None\<rparr>)
   \<and> (4 :: ValueType) \<noteq> 1
   \<and> runParser ''2^3^2'' = Inr (512, \<lparr>currentPosition = 5, errorCode = ParseError_None\<rparr>)
   \<and> (512 :: ValueType) \<noteq> 64"
  by code_simp


text \<open>
  Claim C10. A literal with an explicit leading \<open>+\<close> parses, because \<open>strtoll\<close> accepts
  an optional sign: parsing \<open>+5\<close> succeeds with value 5 and parsing \<open>2*+3\<close> succeeds
  with value 6.
\<close>

theorem explicit_plus_sign_examples:
  "runParser ''+5'' = Inr (5, \<lparr>currentPosition = 2, errorCode = ParseError_None\<rparr>)
   \<and> runParser ''2*+3'' = Inr (6, \<lparr>currentPosition = 4, errorCode = ParseError_None\<rparr>)"
  by code_simp

section \<open>Runs of minus signs\<close>

text \<open>
  Where an operand is expected, \<open>parseUnaryMinus\<close> takes one \<open>-\<close> and \<open>strtoll\<close> takes a
  second one as the sign of the literal; a third \<open>-\<close> is taken by nothing. So two signs
  before a digit parse and three signs give \<open>ParseError_Syntax\<close> at the second sign. After
  a left operand, \<open>parseAddSubtract\<close> takes one more \<open>-\<close> as the binary operator first.
\<close>

lemma skipWhitespace_id: "\<not> isspace (charAt str p) \<Longrightarrow> skipWhitespace str p = p"
  by (subst skipWhitespace.simps) simp

lemma scanDigits_no_digit: "\<not> isdigit (charAt str p) \<Longrightarrow> scanDigits str p acc = (acc, p)"
  by (subst scanDigits.simps) simp

lemma scanDigits_digit: "isdigit (charAt str p) \<Longrightarrow> p < snd (scanDigits str p acc)"
  using scanDigits_ge [of "Suc p" str "acc * 10 + (int (of_char (charAt str p)) - 48)"]
  by (subst scanDigits.simps) simp

lemma minus_not_space: "\<not> isspace (CHR ''-'')"
  by (simp add: isspace_def)

lemma minus_not_digit: "\<not> isdigit (CHR ''-'')"
  by (simp add: isdigit_def)

lemma parseValue_minus_minus:
  assumes "charAt str (currentPosition data) = CHR ''-''"
    and "charAt str (Suc (currentPosition data)) = CHR ''-''"
  shows "parseValue str data = (0, data\<lparr>errorCode := ParseError_Syntax\<rparr>)"
proof -
  have s: "skipWhitespace str (currentPosition data) = currentPosition data"
    using assms(1) by (simp add: skipWhitespace_id minus_not_space)
  have d: "scanDigits str (Suc (currentPosition data)) 0 = (0, Suc (currentPosition data))"
    using assms(2) by (simp add: scanDigits_no_digit minus_not_digit)
  have "strtoll str (currentPosition data) = (0, currentPosition data)"
    by (simp add: strtoll_def s assms(1) d)
  then show ?thesis by (simp add: parseValue_def s)
qed

lemma parseValue_minus_digit:
  assumes "charAt str (currentPosition data) = CHR ''-''"
    and "isdigit (charAt str (Suc (currentPosition data)))"
  shows "parseValue str data =
       (fst (strtoll str (currentPosition data)),
        data\<lparr>currentPosition := snd (strtoll str (currentPosition data))\<rparr>)
     \<and> Suc (currentPosition data) < snd (strtoll str (currentPosition data))"
proof -
  have s: "skipWhitespace str (currentPosition data) = currentPosition data"
    using assms(1) by (simp add: skipWhitespace_id minus_not_space)
  from scanDigits_digit [OF assms(2), of 0]
  have "Suc (currentPosition data) < snd (scanDigits str (Suc (currentPosition data)) 0)" .
  then have l: "Suc (currentPosition data) < snd (strtoll str (currentPosition data))"
    by (simp add: strtoll_def s assms(1) case_prod_beta Let_def)
  then have "snd (strtoll str (currentPosition data)) \<noteq> currentPosition data" by simp
  then have "parseValue str data =
       (fst (strtoll str (currentPosition data)),
        data\<lparr>currentPosition := snd (strtoll str (currentPosition data))\<rparr>)"
    by (simp add: parseValue_def s case_prod_beta)
  with l show ?thesis by simp
qed

lemma parseUnaryMinus_minus:
  "charAt str (skipWhitespace str (currentPosition data)) = CHR ''-''
   \<Longrightarrow> parseParentheses n str
         (data\<lparr>currentPosition := Suc (skipWhitespace str (currentPosition data))\<rparr>) = Inr (r, d)
   \<Longrightarrow> parseUnaryMinus (Suc n) str data = Inr (- r, d)"
  by (simp add: Let_def)

lemma parseParentheses_value:
  "charAt str (skipWhitespace str (currentPosition data)) \<noteq> CHR ''(''
   \<Longrightarrow> parseParentheses (Suc n) str data
       = Inr (parseValue str (data\<lparr>currentPosition := skipWhitespace str (currentPosition data)\<rparr>))"
  by (simp add: Let_def)

lemma parseUnaryMinus_two_signs:
  assumes "charAt str (skipWhitespace str (currentPosition data)) = CHR ''-''"
    and "charAt str (Suc (skipWhitespace str (currentPosition data))) = CHR ''-''"
    and "isdigit (charAt str (Suc (Suc (skipWhitespace str (currentPosition data)))))"
  shows "parseUnaryMinus (Suc (Suc n)) str data =
       Inr (- fst (strtoll str (Suc (skipWhitespace str (currentPosition data)))),
            data\<lparr>currentPosition :=
                   snd (strtoll str (Suc (skipWhitespace str (currentPosition data))))\<rparr>)
     \<and> Suc (Suc (skipWhitespace str (currentPosition data)))
         < snd (strtoll str (Suc (skipWhitespace str (currentPosition data))))"
proof -
  let ?p = "skipWhitespace str (currentPosition data)"
  let ?d2 = "data\<lparr>currentPosition := Suc ?p\<rparr>"
  have s: "skipWhitespace str (Suc ?p) = Suc ?p"
    using assms(2) by (simp add: skipWhitespace_id minus_not_space)
  have v: "parseValue str ?d2 =
       (fst (strtoll str (currentPosition ?d2)),
        ?d2\<lparr>currentPosition := snd (strtoll str (currentPosition ?d2))\<rparr>)
     \<and> Suc (currentPosition ?d2) < snd (strtoll str (currentPosition ?d2))"
    by (rule parseValue_minus_digit) (use assms in simp_all)
  then have "parseParentheses (Suc n) str ?d2 =
      Inr (fst (strtoll str (Suc ?p)), data\<lparr>currentPosition := snd (strtoll str (Suc ?p))\<rparr>)"
    using parseParentheses_value [of str ?d2 n] assms(2) s by simp
  with assms(1) have "parseUnaryMinus (Suc (Suc n)) str data =
      Inr (- fst (strtoll str (Suc ?p)), data\<lparr>currentPosition := snd (strtoll str (Suc ?p))\<rparr>)"
    by (rule parseUnaryMinus_minus)
  with v show ?thesis by simp
qed

lemma parseUnaryMinus_three_signs:
  assumes "charAt str (skipWhitespace str (currentPosition data)) = CHR ''-''"
    and "charAt str (Suc (skipWhitespace str (currentPosition data))) = CHR ''-''"
    and "charAt str (Suc (Suc (skipWhitespace str (currentPosition data)))) = CHR ''-''"
  shows "parseUnaryMinus (Suc (Suc n)) str data =
     Inr (0, data\<lparr>currentPosition := Suc (skipWhitespace str (currentPosition data)),
                    errorCode := ParseError_Syntax\<rparr>)"
proof -
  let ?p = "skipWhitespace str (currentPosition data)"
  let ?d2 = "data\<lparr>currentPosition := Suc ?p\<rparr>"
  have s: "skipWhitespace str (Suc ?p) = Suc ?p"
    using assms(2) by (simp add: skipWhitespace_id minus_not_space)
  have "parseValue str ?d2 = (0, ?d2\<lparr>errorCode := ParseError_Syntax\<rparr>)"
    by (rule parseValue_minus_minus) (use assms in simp_all)
  then have "parseParentheses (Suc n) str ?d2 = Inr (0, ?d2\<lparr>errorCode := ParseError_Syntax\<rparr>)"
    using parseParentheses_value [of str ?d2 n] assms(2) s by simp
  with assms(1) have "parseUnaryMinus (Suc (Suc n)) str data
      = Inr (- 0, ?d2\<lparr>errorCode := ParseError_Syntax\<rparr>)"
    by (rule parseUnaryMinus_minus)
  then show ?thesis by simp
qed

text \<open>
  Claim C9 as the specification states it says that runs of two or three minus signs
  before a literal parse and that a run of four fails with a syntax error. With no left
  operand a run of three fails: \<open>---5\<close> ends with \<open>ParseError_Syntax\<close> at offset 1, as
  exercise 4 at the end of the source file notes. And a run of four inside parentheses
  does not end with a syntax error: \<open>(2----5)\<close> ends with
  \<open>ParseError_NoClosingParenthesis\<close>.
\<close>

theorem minus_runs_counterexample:
  "runParser ''---5'' = Inr (0, \<lparr>currentPosition = 1, errorCode = ParseError_Syntax\<rparr>)
   \<and> runParser ''(2----5)''
     = Inr (0, \<lparr>currentPosition = 4, errorCode = ParseError_NoClosingParenthesis\<rparr>)"
  by code_simp

text \<open>
  Claim C9, as the code has it. Where \<open>parseUnaryMinus\<close> is called, that is, where an
  operand is expected: two minus signs in a row before a digit parse, with no error set;
  \<open>parseUnaryMinus\<close> consumes the first, \<open>strtoll\<close> reads the second as the sign of the
  literal, and the value is the literal negated. Three minus signs in a row there make
  \<open>parseUnaryMinus\<close> return 0 with \<open>ParseError_Syntax\<close> set and the cursor on the second
  sign. So a run of three parses only after a left operand, where \<open>parseAddSubtract\<close>
  consumes the first \<open>-\<close> as the binary operator: \<open>2--5\<close> succeeds (with \<open>2-(-5) = 7\<close>),
  \<open>2---5\<close> succeeds (with \<open>2-(-(-5)) = -3\<close>) and \<open>--5\<close> succeeds with value 5, while
  \<open>2----5\<close> ends with \<open>ParseError_Syntax\<close> at offset 3, where the literal is expected.
\<close>

theorem consecutive_minus_signs:
  "(\<forall>n str data.
      charAt str (skipWhitespace str (currentPosition data)) = CHR ''-''
      \<and> charAt str (Suc (skipWhitespace str (currentPosition data))) = CHR ''-''
      \<and> isdigit (charAt str (Suc (Suc (skipWhitespace str (currentPosition data)))))
      \<longrightarrow> parseUnaryMinus (Suc (Suc n)) str data =
            Inr (- fst (strtoll str (Suc (skipWhitespace str (currentPosition data)))),
                 data\<lparr>currentPosition :=
                        snd (strtoll str (Suc (skipWhitespace str (currentPosition data))))\<rparr>)
          \<and> Suc (Suc (skipWhitespace str (currentPosition data)))
              < snd (strtoll str (Suc (skipWhitespace str (currentPosition data)))))
   \<and> (\<forall>n str data.
      charAt str (skipWhitespace str (currentPosition data)) = CHR ''-''
      \<and> charAt str (Suc (skipWhitespace str (currentPosition data))) = CHR ''-''
      \<and> charAt str (Suc (Suc (skipWhitespace str (currentPosition data)))) = CHR ''-''
      \<longrightarrow> parseUnaryMinus (Suc (Suc n)) str data =
            Inr (0, data\<lparr>currentPosition := Suc (skipWhitespace str (currentPosition data)),
                          errorCode := ParseError_Syntax\<rparr>))
   \<and> runParser ''2--5'' = Inr (7, \<lparr>currentPosition = 4, errorCode = ParseError_None\<rparr>)
   \<and> runParser ''2---5'' = Inr (- 3, \<lparr>currentPosition = 5, errorCode = ParseError_None\<rparr>)
   \<and> runParser ''--5'' = Inr (5, \<lparr>currentPosition = 3, errorCode = ParseError_None\<rparr>)
   \<and> runParser ''2----5'' = Inr (0, \<lparr>currentPosition = 3, errorCode = ParseError_Syntax\<rparr>)"
proof (intro conjI allI impI)
  fix n :: nat and str :: string and data :: ParseData
  assume "charAt str (skipWhitespace str (currentPosition data)) = CHR ''-''
      \<and> charAt str (Suc (skipWhitespace str (currentPosition data))) = CHR ''-''
      \<and> isdigit (charAt str (Suc (Suc (skipWhitespace str (currentPosition data)))))"
  then have t: "parseUnaryMinus (Suc (Suc n)) str data =
       Inr (- fst (strtoll str (Suc (skipWhitespace str (currentPosition data)))),
            data\<lparr>currentPosition :=
                   snd (strtoll str (Suc (skipWhitespace str (currentPosition data))))\<rparr>)
     \<and> Suc (Suc (skipWhitespace str (currentPosition data)))
         < snd (strtoll str (Suc (skipWhitespace str (currentPosition data))))"
    by (intro parseUnaryMinus_two_signs) simp_all
  from t show "parseUnaryMinus (Suc (Suc n)) str data =
       Inr (- fst (strtoll str (Suc (skipWhitespace str (currentPosition data)))),
            data\<lparr>currentPosition :=
                   snd (strtoll str (Suc (skipWhitespace str (currentPosition data))))\<rparr>)"
    by (rule conjunct1)
  from t show "Suc (Suc (skipWhitespace str (currentPosition data)))
         < snd (strtoll str (Suc (skipWhitespace str (currentPosition data))))"
    by (rule conjunct2)
next
  fix n :: nat and str :: string and data :: ParseData
  assume "charAt str (skipWhitespace str (currentPosition data)) = CHR ''-''
      \<and> charAt str (Suc (skipWhitespace str (currentPosition data))) = CHR ''-''
      \<and> charAt str (Suc (Suc (skipWhitespace str (currentPosition data)))) = CHR ''-''"
  then show "parseUnaryMinus (Suc (Suc n)) str data =
            Inr (0, data\<lparr>currentPosition := Suc (skipWhitespace str (currentPosition data)),
                          errorCode := ParseError_Syntax\<rparr>)"
    by (intro parseUnaryMinus_three_signs) simp_all
next
  show "runParser ''2--5'' = Inr (7, \<lparr>currentPosition = 4, errorCode = ParseError_None\<rparr>)"
    by code_simp
next
  show "runParser ''2---5'' = Inr (- 3, \<lparr>currentPosition = 5, errorCode = ParseError_None\<rparr>)"
    by code_simp
next
  show "runParser ''--5'' = Inr (5, \<lparr>currentPosition = 3, errorCode = ParseError_None\<rparr>)"
    by code_simp
next
  show "runParser ''2----5'' = Inr (0, \<lparr>currentPosition = 3, errorCode = ParseError_Syntax\<rparr>)"
    by code_simp
qed

text \<open>The theorem at \<open>--5\<close> (two signs) and at \<open>---5\<close> (three signs), from offset 0.\<close>

theorem consecutive_minus_signs_witness:
  "parseUnaryMinus 2 ''--5'' initialData
     = Inr (5, \<lparr>currentPosition = 3, errorCode = ParseError_None\<rparr>)
   \<and> parseUnaryMinus 2 ''---5'' initialData
     = Inr (0, \<lparr>currentPosition = 1, errorCode = ParseError_Syntax\<rparr>)"
proof -
  note two = consecutive_minus_signs [THEN conjunct1, rule_format]
  note three = consecutive_minus_signs [THEN conjunct2, THEN conjunct1, rule_format]
  have a1: "charAt ''--5'' (skipWhitespace ''--5'' (currentPosition initialData)) = CHR ''-''"
    by code_simp
  have a2: "charAt ''--5'' (Suc (skipWhitespace ''--5'' (currentPosition initialData))) = CHR ''-''"
    by code_simp
  have a3: "isdigit (charAt ''--5'' (Suc (Suc (skipWhitespace ''--5'' (currentPosition initialData)))))"
    by code_simp
  have e: "- fst (strtoll ''--5'' (Suc (skipWhitespace ''--5'' (currentPosition initialData)))) = 5"
    "initialData\<lparr>currentPosition :=
        snd (strtoll ''--5'' (Suc (skipWhitespace ''--5'' (currentPosition initialData))))\<rparr>
      = \<lparr>currentPosition = 3, errorCode = ParseError_None\<rparr>"
    by code_simp+
  from two [OF conjI [OF a1 conjI [OF a2 a3]], of 0]
  have w1: "parseUnaryMinus 2 ''--5'' initialData
      = Inr (5, \<lparr>currentPosition = 3, errorCode = ParseError_None\<rparr>)"
    by (simp only: e numeral_2_eq_2)
  have b1: "charAt ''---5'' (skipWhitespace ''---5'' (currentPosition initialData)) = CHR ''-''"
    by code_simp
  have b2: "charAt ''---5'' (Suc (skipWhitespace ''---5'' (currentPosition initialData))) = CHR ''-''"
    by code_simp
  have b3: "charAt ''---5'' (Suc (Suc (skipWhitespace ''---5'' (currentPosition initialData))))
      = CHR ''-''"
    by code_simp
  have f: "initialData\<lparr>currentPosition :=
        Suc (skipWhitespace ''---5'' (currentPosition initialData)),
        errorCode := ParseError_Syntax\<rparr>
      = \<lparr>currentPosition = 1, errorCode = ParseError_Syntax\<rparr>"
    by code_simp
  from three [OF conjI [OF b1 conjI [OF b2 b3]], of 0]
  have w2: "parseUnaryMinus 2 ''---5'' initialData
      = Inr (0, \<lparr>currentPosition = 1, errorCode = ParseError_Syntax\<rparr>)"
    by (simp only: f numeral_2_eq_2)
  from w1 w2 show ?thesis by (rule conjI)
qed

section \<open>Unary minus and the exponent\<close>

lemma parseExponent_positive:
  assumes "parseUnaryMinus n str data = Inr (b, data1)"
    and "errorCode data1 = ParseError_None"
    and "charAt str (skipWhitespace str (currentPosition data1)) = CHR ''^''"
    and "parseExponent n str
           (data1\<lparr>currentPosition := Suc (skipWhitespace str (currentPosition data1))\<rparr>)
         = Inr (e, data3)"
    and "errorCode data3 = ParseError_None"
    and "0 < sint e"
  shows "parseExponent (Suc n) str data = Inr (b ^ nat (sint e), data3)"
proof -
  from assms(6) have "e \<noteq> 0" "\<not> sint e < 0" by auto
  with assms show ?thesis
    by (simp add: Let_def parseExponent_while_power)
qed

text \<open>
  Claim C8. Unary minus binds tighter than \<open>^\<close>. When \<open>parseUnaryMinus\<close> has consumed a
  \<open>-\<close> and \<open>parseParentheses\<close> has returned the operand \<open>r\<close>, the base that \<open>parseExponent\<close>
  raises to a positive exponent \<open>e\<close> is \<open>-r\<close>: the result is \<open>(-r)^e\<close>, not \<open>-(r^e)\<close>. So
  parsing \<open>-2^4\<close> succeeds with value \<open>16 = (-2)^4\<close>, not with \<open>-16 = -(2^4)\<close>; \<open>-(2)^4\<close> and
  \<open>- 2^4\<close>, where the sign cannot belong to the literal, give 16 as well, \<open>-(2)^3\<close> gives
  \<open>-8\<close>, and only the parentheses of \<open>-(2^4)\<close> give \<open>-16\<close>.
\<close>

theorem unary_minus_binds_tighter_than_exponent:
  "(\<forall>n str data r d1 e d3.
      charAt str (skipWhitespace str (currentPosition data)) = CHR ''-''
      \<and> parseParentheses n str
            (data\<lparr>currentPosition := Suc (skipWhitespace str (currentPosition data))\<rparr>)
          = Inr (r, d1)
      \<and> errorCode d1 = ParseError_None
      \<and> charAt str (skipWhitespace str (currentPosition d1)) = CHR ''^''
      \<and> parseExponent (Suc n) str
            (d1\<lparr>currentPosition := Suc (skipWhitespace str (currentPosition d1))\<rparr>)
          = Inr (e, d3)
      \<and> errorCode d3 = ParseError_None
      \<and> 0 < sint e
      \<longrightarrow> parseExponent (Suc (Suc n)) str data = Inr ((- r) ^ nat (sint e), d3))
   \<and> runParser ''-2^4'' = Inr (16, \<lparr>currentPosition = 4, errorCode = ParseError_None\<rparr>)
   \<and> (16 :: ValueType) \<noteq> - 16
   \<and> runParser ''-(2)^4'' = Inr (16, \<lparr>currentPosition = 6, errorCode = ParseError_None\<rparr>)
   \<and> runParser ''- 2^4'' = Inr (16, \<lparr>currentPosition = 5, errorCode = ParseError_None\<rparr>)
   \<and> runParser ''-(2)^3'' = Inr (- 8, \<lparr>currentPosition = 6, errorCode = ParseError_None\<rparr>)
   \<and> runParser ''-(2^4)'' = Inr (- 16, \<lparr>currentPosition = 6, errorCode = ParseError_None\<rparr>)"
proof (intro conjI allI impI)
  fix n str data r d1 e d3
  assume a: "charAt str (skipWhitespace str (currentPosition data)) = CHR ''-''
      \<and> parseParentheses n str
            (data\<lparr>currentPosition := Suc (skipWhitespace str (currentPosition data))\<rparr>)
          = Inr (r, d1)
      \<and> errorCode d1 = ParseError_None
      \<and> charAt str (skipWhitespace str (currentPosition d1)) = CHR ''^''
      \<and> parseExponent (Suc n) str
            (d1\<lparr>currentPosition := Suc (skipWhitespace str (currentPosition d1))\<rparr>)
          = Inr (e, d3)
      \<and> errorCode d3 = ParseError_None
      \<and> 0 < sint e"
  then have "parseUnaryMinus (Suc n) str data = Inr (- r, d1)"
    by (intro parseUnaryMinus_minus) simp_all
  with a show "parseExponent (Suc (Suc n)) str data = Inr ((- r) ^ nat (sint e), d3)"
    by (intro parseExponent_positive [where ?data1.0 = d1]) simp_all
next
  show "runParser ''-2^4'' = Inr (16, \<lparr>currentPosition = 4, errorCode = ParseError_None\<rparr>)"
    by code_simp
next
  show "(16 :: ValueType) \<noteq> - 16" by simp
next
  show "runParser ''-(2)^4'' = Inr (16, \<lparr>currentPosition = 6, errorCode = ParseError_None\<rparr>)"
    by code_simp
next
  show "runParser ''- 2^4'' = Inr (16, \<lparr>currentPosition = 5, errorCode = ParseError_None\<rparr>)"
    by code_simp
next
  show "runParser ''-(2)^3'' = Inr (- 8, \<lparr>currentPosition = 6, errorCode = ParseError_None\<rparr>)"
    by code_simp
next
  show "runParser ''-(2^4)'' = Inr (- 16, \<lparr>currentPosition = 6, errorCode = ParseError_None\<rparr>)"
    by code_simp
qed

text \<open>The theorem at the input \<open>-(3)^2\<close>, from offset 0: the result is \<open>(-3)^2 = 9\<close>.\<close>

theorem unary_minus_binds_tighter_than_exponent_witness:
  "parseParentheses 8 ''-(3)^2'' \<lparr>currentPosition = 1, errorCode = ParseError_None\<rparr>
     = Inr (3, \<lparr>currentPosition = 4, errorCode = ParseError_None\<rparr>)
   \<and> parseExponent 9 ''-(3)^2'' \<lparr>currentPosition = 5, errorCode = ParseError_None\<rparr>
     = Inr (2, \<lparr>currentPosition = 6, errorCode = ParseError_None\<rparr>)
   \<and> parseExponent 10 ''-(3)^2'' initialData
     = Inr (9, \<lparr>currentPosition = 6, errorCode = ParseError_None\<rparr>)"
proof -
  let ?d1 = "\<lparr>currentPosition = 4, errorCode = ParseError_None\<rparr>"
  let ?d3 = "\<lparr>currentPosition = 6, errorCode = ParseError_None\<rparr>"
  note g = unary_minus_binds_tighter_than_exponent [THEN conjunct1, rule_format]
  have h1: "charAt ''-(3)^2'' (skipWhitespace ''-(3)^2'' (currentPosition initialData)) = CHR ''-''"
    by code_simp
  have h2: "parseParentheses 8 ''-(3)^2''
      (initialData\<lparr>currentPosition :=
         Suc (skipWhitespace ''-(3)^2'' (currentPosition initialData))\<rparr>) = Inr (3, ?d1)"
    by code_simp
  have h2': "parseParentheses 8 ''-(3)^2'' \<lparr>currentPosition = 1, errorCode = ParseError_None\<rparr>
      = Inr (3, ?d1)"
    by code_simp
  have h3: "errorCode ?d1 = ParseError_None" by simp
  have h4: "charAt ''-(3)^2'' (skipWhitespace ''-(3)^2'' (currentPosition ?d1)) = CHR ''^''"
    by code_simp
  have h5: "parseExponent (Suc 8) ''-(3)^2''
      (?d1\<lparr>currentPosition := Suc (skipWhitespace ''-(3)^2'' (currentPosition ?d1))\<rparr>)
      = Inr (2, ?d3)"
    by code_simp
  have h5': "parseExponent 9 ''-(3)^2'' \<lparr>currentPosition = 5, errorCode = ParseError_None\<rparr>
      = Inr (2, ?d3)"
    by code_simp
  have h6: "errorCode ?d3 = ParseError_None" by simp
  have h7: "0 < sint (2 :: ValueType)" by simp
  have "parseExponent (Suc (Suc 8)) ''-(3)^2'' initialData
      = Inr ((- 3) ^ nat (sint (2 :: ValueType)), ?d3)"
    by (rule g [OF conjI [OF h1 conjI [OF h2 conjI [OF h3 conjI [OF h4 conjI [OF h5
          conjI [OF h6 h7]]]]]]])
  then have "parseExponent 10 ''-(3)^2'' initialData = Inr (9, ?d3)" by simp
  with h2' h5' show ?thesis by simp
qed

end
